theory Spec2Isabelle
  imports Complex_Main
begin

section \<open>Mobile JKN sentiment dashboard: a model of \<open>app.py\<close>\<close>

text \<open>
  \<open>app.py\<close> is a Streamlit script: every user action runs it from the first line to the
  last. The model below is one such run. Its inputs are what the run reads from outside
  (the two pickled artifacts, the CSV file, the three images, the widget values); its
  result is the list of things it renders and calls, in order, and either normal
  completion or the exception that ended the run.

  Modelling decisions:
  \<^item> A Python \<open>str\<close> is a \<open>string\<close> whose characters are the code points below 256;
    \<open>str.strip\<close>, \<open>str.lower\<close> and \<open>bytes.lower\<close> are exact on them.
  \<^item> A Python \<open>float\<close> is a \<open>real\<close>, and \<open>nan\<close> a value of its own where it occurs.
  \<^item> Only exceptions derived from \<open>Exception\<close> are modelled.
  \<^item> The objects unpickled by \<open>joblib.load\<close> are opaque: each method is a function
    that reads and may change the objects' internal state (the \<open>heap\<close>) and returns a
    value or raises.
  \<^item> Layout calls (\<open>st.columns\<close>, \<open>st.tabs\<close>, \<open>with\<close> blocks) neither fail nor
    decide anything; pictographs in the texts are left out.
\<close>

subsection \<open>Strings\<close>

type_synonym pystr = string

definition isspace :: "char \<Rightarrow> bool" where
  "isspace c = (of_char c \<in> {9, 10, 11, 12, 13, 28, 29, 30, 31, 32, 133, 160 :: nat})"

text \<open>\<open>s.strip()\<close>: whitespace removed from both ends.\<close>

definition strip :: "pystr \<Rightarrow> pystr" where
  "strip s = rev (dropWhile isspace (rev (dropWhile isspace s)))"

text \<open>\<open>str.lower\<close> on one code point below 256: A-Z and the accented capitals
  192..222 (but not the multiplication sign 215) move up by 32.\<close>

definition lower_char :: "char \<Rightarrow> char" where
  "lower_char c =
     (let n = of_char c :: nat
      in if (65 \<le> n \<and> n \<le> 90) \<or> (192 \<le> n \<and> n \<le> 222 \<and> n \<noteq> 215)
         then char_of (n + 32) else c)"

definition lower :: "pystr \<Rightarrow> pystr" where
  "lower s = map lower_char s"

text \<open>\<open>bytes.lower\<close> changes the ASCII capitals only.\<close>

definition lower_byte :: "char \<Rightarrow> char" where
  "lower_byte c =
     (let n = of_char c :: nat in if 65 \<le> n \<and> n \<le> 90 then char_of (n + 32) else c)"

subsection \<open>Exceptions and values\<close>

datatype exn =
    FileNotFoundError
  | KeyError
  | IndexError
  | AttributeError
  | TypeError
  | ValueError
  | SyntaxError
  | OtherError string

text \<open>The values \<open>ast.literal_eval\<close> can return and the elements an array returned by
  \<open>predict\<close> can hold. A set is kept as the list of its elements in iteration order, a
  dict as its items in iteration order.\<close>

datatype pyval =
    PNone
  | PEllipsis
  | PBool bool
  | PInt int
  | PFloat real
  | PComplex real real
  | PStr pystr
  | PBytes string
  | PList "pyval list"
  | PTuple "pyval list"
  | PSet "pyval list"
  | PDict "(pyval \<times> pyval) list"

text \<open>\<open>sep.join(v)\<close>: \<open>v\<close> is iterated (a string gives its characters, a bytes object
  its integers, a dict its keys), and every item has to be a string.\<close>

fun iter_items :: "pyval \<Rightarrow> exn + pyval list" where
  "iter_items (PStr s) = Inr (map (\<lambda>c. PStr [c]) s)"
| "iter_items (PBytes b) = Inr (map (\<lambda>c. PInt (of_char c)) b)"
| "iter_items (PList xs) = Inr xs"
| "iter_items (PTuple xs) = Inr xs"
| "iter_items (PSet xs) = Inr xs"
| "iter_items (PDict kvs) = Inr (map fst kvs)"
| "iter_items _ = Inl TypeError"

fun join_strs :: "pystr \<Rightarrow> pyval list \<Rightarrow> exn + pystr" where
  "join_strs sep [] = Inr []"
| "join_strs sep [PStr s] = Inr s"
| "join_strs sep (PStr s # x # xs) =
     (case join_strs sep (x # xs) of Inl e \<Rightarrow> Inl e | Inr r \<Rightarrow> Inr (s @ sep @ r))"
| "join_strs sep (_ # xs) = Inl TypeError"

definition str_join :: "pystr \<Rightarrow> pyval \<Rightarrow> exn + pystr" where
  "str_join sep v = (case iter_items v of Inl e \<Rightarrow> Inl e | Inr xs \<Rightarrow> join_strs sep xs)"

text \<open>\<open>x.lower()\<close> on a value: strings and bytes have the method, the other values
  raise \<open>AttributeError\<close>.\<close>

fun py_lower :: "pyval \<Rightarrow> exn + pyval" where
  "py_lower (PStr s) = Inr (PStr (lower s))"
| "py_lower (PBytes b) = Inr (PBytes (map lower_byte b))"
| "py_lower _ = Inl AttributeError"

subsection \<open>The label's presentation (lines 202-210)\<close>

datatype emoji = Smiling_face | Disappointed_face | Neutral_face

text \<open>The \<open>if\<close>/\<open>elif\<close>/\<open>else\<close> that chooses \<open>emoji\<close> and \<open>color\<close>. The second
  \<open>.lower()\<close> is evaluated only when the first comparison is false.\<close>

definition style_of :: "pyval \<Rightarrow> exn + (emoji \<times> string)" where
  "style_of hasil_prediksi =
     (case py_lower hasil_prediksi of
        Inl e \<Rightarrow> Inl e
      | Inr l1 \<Rightarrow>
          if l1 = PStr ''positif'' then Inr (Smiling_face, ''#4CAF50'')
          else (case py_lower hasil_prediksi of
                  Inl e \<Rightarrow> Inl e
                | Inr l2 \<Rightarrow>
                    if l2 = PStr ''negatif'' then Inr (Disappointed_face, ''#F44336'')
                    else Inr (Neutral_face, ''#FF9800'')))"

subsection \<open>Artifacts, dataset and the inputs of one run\<close>

text \<open>\<open>decision_function\<close> returns an array with one entry per input row: a number
  for a two-class model, a row of per-class numbers otherwise.\<close>

datatype margin = Scalar real | Vector "real list"

record ('h, 'v) vectorizer_obj =
  transform :: "pystr list \<Rightarrow> 'h \<Rightarrow> (exn + 'v) \<times> 'h"

record ('h, 'v) model_obj =
  predict :: "'v \<Rightarrow> 'h \<Rightarrow> (exn + pyval list) \<times> 'h"
  decision_function :: "'v \<Rightarrow> 'h \<Rightarrow> (exn + margin list) \<times> 'h"

text \<open>A cell as \<open>pd.read_csv\<close> produces it; the data frame is its columns in order.\<close>

datatype cell = CStr pystr | CInt int | CFloat real | CBool bool | CNaN

type_synonym dataframe = "(pystr \<times> cell list) list"

type_synonym image = nat

datatype menu = Dashboard | Dataset | Prediksi_Manual | Visualisasi_Sentimen

text \<open>What a run reads from outside: the result of each \<open>joblib.load\<close>, of
  \<open>pd.read_csv\<close>, of \<open>ast.literal_eval\<close> and of \<open>Image.open\<close>, and the values the
  widgets return (\<open>show_rows_choice\<close> is the position chosen in the select box).\<close>

record ('h, 'v) env =
  load_model_pkl :: "exn + ('h, 'v) model_obj"
  load_vectorizer_pkl :: "exn + ('h, 'v) vectorizer_obj"
  read_csv :: "exn + dataframe"
  literal_eval :: "pystr \<Rightarrow> exn + pyval"
  image_open :: "pystr \<Rightarrow> exn + image"
  option :: menu
  show_rows_choice :: nat
  user_input :: pystr
  button :: bool

subsection \<open>What a run does: the trace\<close>

datatype notice =
    Model_not_found
  | Dataset_not_found
  | Wordcloud_not_found
  | Prediction_failed exn

datatype chart = Pie "cell list" | Bar "cell list" | Donut "cell list"

text \<open>\<open>Prediction_box emoji color label c\<close> is the result box of lines 212-223: it
  prints \<open>label.upper()\<close> and \<open>c\<close> with two decimals, \<open>c\<close> being \<open>abs(confidence)\<close>.
  \<open>St_metric label count percentage\<close> prints \<open>label.title()\<close>. A chart is drawn from
  the value counts of the column it carries.\<close>

datatype event =
    Set_page_config
  | Markdown string
  | Radio_menu
  | St_error notice
  | St_warning_empty_input
  | St_info string
  | St_info_dataset nat nat
  | Text_area
  | Button
  | Prediction_box emoji string pyval real
  | Plotly_chart chart
  | Selectbox "nat list"
  | St_dataframe dataframe
  | Download_button dataframe
  | St_image image
  | St_metric pystr nat real
  | Call_transform "pystr list"
  | Call_predict
  | Call_decision_function

text \<open>The state of a run: the internal state of the unpickled objects, the three
  module-level variables, and the trace.\<close>

record ('h, 'v) state =
  heap :: 'h
  model :: "('h, 'v) model_obj option"
  vectorizer :: "('h, 'v) vectorizer_obj option"
  df :: "dataframe option"
  trace :: "event list"

definition init :: "'h \<Rightarrow> ('h, 'v) state" where
  "init h = \<lparr>heap = h, model = None, vectorizer = None, df = None, trace = []\<rparr>"

type_synonym ('a, 'h, 'v) prog = "('h, 'v) state \<Rightarrow> (exn + 'a) \<times> ('h, 'v) state"

definition return :: "'a \<Rightarrow> ('a, 'h, 'v) prog" where
  "return a s = (Inr a, s)"

definition lift :: "exn + 'a \<Rightarrow> ('a, 'h, 'v) prog" where
  "lift r s = (r, s)"

definition bind_prog :: "('a, 'h, 'v) prog \<Rightarrow> ('a \<Rightarrow> ('b, 'h, 'v) prog) \<Rightarrow> ('b, 'h, 'v) prog" where
  "bind_prog m f s = (case m s of (Inl x, s') \<Rightarrow> (Inl x, s') | (Inr a, s') \<Rightarrow> f a s')"

definition emit :: "event list \<Rightarrow> (unit, 'h, 'v) prog" where
  "emit evs s = (Inr (), s\<lparr>trace := trace s @ evs\<rparr>)"

text \<open>\<open>try: body except FileNotFoundError: handler\<close>\<close>

definition try_except_FileNotFoundError ::
  "('a, 'h, 'v) prog \<Rightarrow> ('a, 'h, 'v) prog \<Rightarrow> ('a, 'h, 'v) prog" where
  "try_except_FileNotFoundError body handler s =
     (case body s of
        (Inl x, s') \<Rightarrow> if x = FileNotFoundError then handler s' else (Inl x, s')
      | (Inr a, s') \<Rightarrow> (Inr a, s'))"

text \<open>\<open>try: body except Exception as e: handler(e)\<close>\<close>

definition try_except_Exception ::
  "('a, 'h, 'v) prog \<Rightarrow> (exn \<Rightarrow> ('a, 'h, 'v) prog) \<Rightarrow> ('a, 'h, 'v) prog" where
  "try_except_Exception body handler s =
     (case body s of (Inl x, s') \<Rightarrow> handler x s' | (Inr a, s') \<Rightarrow> (Inr a, s'))"

subsection \<open>\<open>load_models\<close> (lines 79-87)\<close>

definition load_models ::
  "('h, 'v) env \<Rightarrow> (('h, 'v) model_obj option \<times> ('h, 'v) vectorizer_obj option, 'h, 'v) prog" where
  "load_models e =
     try_except_FileNotFoundError
       (bind_prog (lift (load_model_pkl e)) (\<lambda>m.
        bind_prog (lift (load_vectorizer_pkl e)) (\<lambda>vz.
        return (Some m, Some vz))))
       (bind_prog (emit [St_error Model_not_found]) (\<lambda>_.
        return (None, None)))"

subsection \<open>\<open>load_data\<close> (lines 90-98)\<close>

text \<open>\<open>df[name]\<close> and \<open>df[name] = column\<close>\<close>

definition getitem :: "dataframe \<Rightarrow> pystr \<Rightarrow> exn + cell list" where
  "getitem d name = (case map_of d name of None \<Rightarrow> Inl KeyError | Some col \<Rightarrow> Inr col)"

definition setitem :: "dataframe \<Rightarrow> pystr \<Rightarrow> cell list \<Rightarrow> dataframe" where
  "setitem d name col =
     (if name \<in> fst ` set d
      then map (\<lambda>(c, xs). if c = name then (c, col) else (c, xs)) d
      else d @ [(name, col)])"

text \<open>The lambda of line 94.\<close>

definition stemming_lambda :: "('h, 'v) env \<Rightarrow> cell \<Rightarrow> exn + cell" where
  "stemming_lambda e x =
     (case x of
        CStr s \<Rightarrow>
          (case literal_eval e s of
             Inl err \<Rightarrow> Inl err
           | Inr v \<Rightarrow> (case str_join '' '' v of Inl err \<Rightarrow> Inl err | Inr r \<Rightarrow> Inr (CStr r)))
      | _ \<Rightarrow> Inr x)"

text \<open>\<open>Series.apply\<close>: the function is applied cell by cell, and the first exception
  ends it.\<close>

fun apply_series :: "('a \<Rightarrow> exn + 'b) \<Rightarrow> 'a list \<Rightarrow> exn + 'b list" where
  "apply_series f [] = Inr []"
| "apply_series f (x # xs) =
     (case f x of
        Inl err \<Rightarrow> Inl err
      | Inr y \<Rightarrow> (case apply_series f xs of Inl err \<Rightarrow> Inl err | Inr ys \<Rightarrow> Inr (y # ys)))"

definition load_data :: "('h, 'v) env \<Rightarrow> (dataframe option, 'h, 'v) prog" where
  "load_data e =
     try_except_FileNotFoundError
       (bind_prog (lift (read_csv e)) (\<lambda>d.
        bind_prog (lift (getitem d ''stemming'')) (\<lambda>col.
        bind_prog (lift (apply_series (stemming_lambda e) col)) (\<lambda>col'.
        return (Some (setitem d ''stemming'' col'))))))
       (bind_prog (emit [St_error Dataset_not_found]) (\<lambda>_.
        return None))"

subsection \<open>Data frame queries used by the views\<close>

text \<open>\<open>len(df)\<close>, \<open>len(df.columns)\<close>, \<open>name in df.columns\<close>, \<open>df.head(n)\<close>,
  \<open>series.unique()\<close> (first occurrences, in order)\<close>

definition nrows :: "dataframe \<Rightarrow> nat" where
  "nrows d = (case d of [] \<Rightarrow> 0 | (c, xs) # _ \<Rightarrow> length xs)"

definition has_column :: "dataframe \<Rightarrow> pystr \<Rightarrow> bool" where
  "has_column d name = (name \<in> fst ` set d)"

definition head :: "nat \<Rightarrow> dataframe \<Rightarrow> dataframe" where
  "head n d = map (\<lambda>(c, xs). (c, take n xs)) d"

definition unique :: "cell list \<Rightarrow> cell list" where
  "unique xs = rev (remdups (rev xs))"

text \<open>The column \<open>df['label']\<close> where the code has already tested that it exists.\<close>

definition label_column :: "dataframe \<Rightarrow> cell list" where
  "label_column d = (case map_of d ''label'' of None \<Rightarrow> [] | Some col \<Rightarrow> col)"

subsection \<open>Dashboard (lines 122-137)\<close>

text \<open>\<open>df.columns\<close> is read with no test of \<open>df\<close>: on \<open>None\<close> it raises
  \<open>AttributeError\<close>.\<close>

definition dashboard :: "(unit, 'h, 'v) prog" where
  "dashboard =
     bind_prog (emit [Markdown ''### Distribusi Sentimen Cepat'']) (\<lambda>_. (\<lambda>s.
       (case df s of
          None \<Rightarrow> (Inl AttributeError, s)
        | Some d \<Rightarrow>
            if has_column d ''label'' then emit [Plotly_chart (Pie (label_column d))] s
            else return () s)))"

subsection \<open>Dataset (lines 140-170)\<close>

definition selectbox :: "nat list \<Rightarrow> nat \<Rightarrow> nat" where
  "selectbox options choice = (if choice < length options then options ! choice else options ! 0)"

definition dataset_view :: "('h, 'v) env \<Rightarrow> (unit, 'h, 'v) prog" where
  "dataset_view e =
     bind_prog (emit [Markdown ''## Dataset Mobile JKN'']) (\<lambda>_. (\<lambda>s.
       (case df s of
          None \<Rightarrow> return () s
        | Some d \<Rightarrow>
            (let options = [10, 20, 50, 100, nrows d];
                 show_rows = selectbox options (show_rows_choice e)
             in emit [Markdown ''### Informasi Dataset'',
                      St_info_dataset (nrows d) (length d),
                      Markdown ''### Filter Data'',
                      Selectbox options,
                      Markdown ''### Data Preview'',
                      St_dataframe (head show_rows d),
                      Download_button d] s))))"

subsection \<open>Prediksi Manual (lines 173-228)\<close>

definition call_transform :: "('h, 'v) vectorizer_obj \<Rightarrow> pystr list \<Rightarrow> ('v, 'h, 'v) prog" where
  "call_transform vz texts s =
     (case transform vz texts (heap s) of
        (r, h) \<Rightarrow> (r, s\<lparr>heap := h, trace := trace s @ [Call_transform texts]\<rparr>))"

definition call_predict :: "('h, 'v) model_obj \<Rightarrow> 'v \<Rightarrow> (pyval list, 'h, 'v) prog" where
  "call_predict m x s =
     (case predict m x (heap s) of
        (r, h) \<Rightarrow> (r, s\<lparr>heap := h, trace := trace s @ [Call_predict]\<rparr>))"

definition call_decision_function :: "('h, 'v) model_obj \<Rightarrow> 'v \<Rightarrow> (margin list, 'h, 'v) prog" where
  "call_decision_function m x s =
     (case decision_function m x (heap s) of
        (r, h) \<Rightarrow> (r, s\<lparr>heap := h, trace := trace s @ [Call_decision_function]\<rparr>))"

text \<open>\<open>xs[0]\<close>\<close>

definition index0 :: "'a list \<Rightarrow> exn + 'a" where
  "index0 xs = (case xs of [] \<Rightarrow> Inl IndexError | x # _ \<Rightarrow> Inr x)"

text \<open>\<open>f"{abs(confidence):.2f}"\<close>: the absolute value of an array is an array, and an
  array refuses the format.\<close>

fun abs_confidence :: "margin \<Rightarrow> exn + real" where
  "abs_confidence (Scalar c) = Inr \<bar>c\<bar>"
| "abs_confidence (Vector cs) = Inl TypeError"

text \<open>The body of the \<open>try\<close> (lines 196-223).\<close>

definition prediksi :: "('h, 'v) model_obj \<Rightarrow> ('h, 'v) vectorizer_obj \<Rightarrow> pystr \<Rightarrow> (unit, 'h, 'v) prog" where
  "prediksi m vz text =
     bind_prog (call_transform vz [text]) (\<lambda>input_vector.
     bind_prog (call_predict m input_vector) (\<lambda>predicted.
     bind_prog (lift (index0 predicted)) (\<lambda>hasil_prediksi.
     bind_prog (call_decision_function m input_vector) (\<lambda>decided.
     bind_prog (lift (index0 decided)) (\<lambda>confidence.
     bind_prog (lift (style_of hasil_prediksi)) (\<lambda>(emoji, color).
     bind_prog (lift (abs_confidence confidence)) (\<lambda>shown.
     emit [Prediction_box emoji color hasil_prediksi shown])))))))"

definition prediksi_manual :: "('h, 'v) env \<Rightarrow> (unit, 'h, 'v) prog" where
  "prediksi_manual e =
     bind_prog (emit [Markdown ''## Prediksi Sentimen Manual'']) (\<lambda>_. (\<lambda>s.
       (case (model s, vectorizer s) of
          (Some m, Some vz) \<Rightarrow>
            bind_prog (emit [Markdown ''### Masukkan Ulasan Anda'', Text_area,
                             Markdown ''### Tips'', St_info ''Tips'', Button]) (\<lambda>_.
              if button e then
                if strip (user_input e) \<noteq> [] then
                  try_except_Exception (prediksi m vz (user_input e))
                    (\<lambda>x. emit [St_error (Prediction_failed x)])
                else emit [St_warning_empty_input]
              else return ()) s
        | _ \<Rightarrow> return () s)))"

subsection \<open>Visualisasi Sentimen (lines 231-319)\<close>

text \<open>The three images of the second tab, inside one \<open>try\<close>.\<close>

definition word_clouds :: "('h, 'v) env \<Rightarrow> (unit, 'h, 'v) prog" where
  "word_clouds e =
     try_except_FileNotFoundError
       (bind_prog (emit [Markdown ''#### Word Cloud Positif'']) (\<lambda>_.
        bind_prog (lift (image_open e ''images/positif.png'')) (\<lambda>img_positive.
        bind_prog (emit [St_image img_positive, Markdown ''#### Word Cloud Negatif'']) (\<lambda>_.
        bind_prog (lift (image_open e ''images/negatif.png'')) (\<lambda>img_negative.
        bind_prog (emit [St_image img_negative, Markdown ''#### Word Cloud Keseluruhan'']) (\<lambda>_.
        bind_prog (lift (image_open e ''images/seluruh kata.png'')) (\<lambda>img_neutral.
        emit [St_image img_neutral])))))))
       (emit [St_error Wordcloud_not_found, St_info ''File yang dibutuhkan''])"

text \<open>The loop of lines 299-306: \<open>sentiment.title()\<close> exists on strings only.\<close>

fun metrics :: "cell list \<Rightarrow> nat \<Rightarrow> cell list \<Rightarrow> (unit, 'h, 'v) prog" where
  "metrics labels total_data [] = return ()"
| "metrics labels total_data (sentiment # rest) =
     bind_prog
       (let count = length (filter (\<lambda>c. c = sentiment \<and> c \<noteq> CNaN) labels);
            percentage = (real count / real total_data) * 100
        in case sentiment of
             CStr t \<Rightarrow> emit [St_metric t count percentage]
           | _ \<Rightarrow> lift (Inl AttributeError))
       (\<lambda>_. metrics labels total_data rest)"

definition visualisasi :: "('h, 'v) env \<Rightarrow> (unit, 'h, 'v) prog" where
  "visualisasi e =
     bind_prog (emit [Markdown ''## Visualisasi Hasil Sentimen'']) (\<lambda>_. (\<lambda>s.
       (case df s of
          None \<Rightarrow> return () s
        | Some d \<Rightarrow>
            if has_column d ''label'' then
              (bind_prog (emit [Plotly_chart (Bar (label_column d)),
                                Plotly_chart (Pie (label_column d)),
                                Markdown ''### Word Cloud Analysis'']) (\<lambda>_.
               bind_prog (word_clouds e) (\<lambda>_.
               bind_prog (emit [Markdown ''### Analisis Detail'',
                                Markdown ''#### Statistik Sentimen'']) (\<lambda>_.
               bind_prog (metrics (label_column d) (nrows d) (unique (label_column d))) (\<lambda>_.
               emit [Plotly_chart (Donut (label_column d))]))))) s
            else return () s)))"

subsection \<open>The script\<close>

definition set_globals ::
  "('h, 'v) model_obj option \<times> ('h, 'v) vectorizer_obj option \<Rightarrow> (unit, 'h, 'v) prog" where
  "set_globals mv s = (Inr (), s\<lparr>model := fst mv, vectorizer := snd mv\<rparr>)"

definition set_df :: "dataframe option \<Rightarrow> (unit, 'h, 'v) prog" where
  "set_df d s = (Inr (), s\<lparr>df := d\<rparr>)"

definition view :: "('h, 'v) env \<Rightarrow> (unit, 'h, 'v) prog" where
  "view e =
     (case option e of
        Dashboard \<Rightarrow> dashboard
      | Dataset \<Rightarrow> dataset_view e
      | Prediksi_Manual \<Rightarrow> prediksi_manual e
      | Visualisasi_Sentimen \<Rightarrow> visualisasi e)"

text \<open>One run of \<open>app.py\<close>. \<open>Inl x\<close> is the exception \<open>x\<close> leaving the script: what
  follows the raising line is not rendered.\<close>

definition run :: "('h, 'v) env \<Rightarrow> (unit, 'h, 'v) prog" where
  "run e =
     bind_prog (emit [Set_page_config, Markdown ''<style>'', Markdown ''main-header'']) (\<lambda>_.
     bind_prog (load_models e) (\<lambda>mv.
     bind_prog (set_globals mv) (\<lambda>_.
     bind_prog (load_data e) (\<lambda>d.
     bind_prog (set_df d) (\<lambda>_.
     bind_prog (emit [Markdown ''Navigation'', Radio_menu]) (\<lambda>_.
     bind_prog (view e) (\<lambda>_.
     emit [Markdown ''---'', Markdown ''footer''])))))))"

subsection \<open>The specification's words\<close>

text \<open>"Any casing of the literal": each character is the literal's character or its
  capital.\<close>

definition upper_ascii :: "char \<Rightarrow> char" where
  "upper_ascii c =
     (let n = of_char c :: nat in if 97 \<le> n \<and> n \<le> 122 then char_of (n - 32) else c)"

definition casing_of :: "pystr \<Rightarrow> pystr \<Rightarrow> bool" where
  "casing_of literal s = list_all2 (\<lambda>d c. c = d \<or> c = upper_ascii d) literal s"

text \<open>The three presentation categories, as the emoji and colour the source gives them.\<close>

definition positive_category :: "emoji \<times> string" where
  "positive_category = (Smiling_face, ''#4CAF50'')"

definition negative_category :: "emoji \<times> string" where
  "negative_category = (Disappointed_face, ''#F44336'')"

definition neutral_category :: "emoji \<times> string" where
  "neutral_category = (Neutral_face, ''#FF9800'')"

text \<open>The events of the prediction form and of inference, and the confidence an event
  shows.\<close>

fun inference_event :: "event \<Rightarrow> bool" where
  "inference_event Text_area = True"
| "inference_event Button = True"
| "inference_event (Call_transform texts) = True"
| "inference_event Call_predict = True"
| "inference_event Call_decision_function = True"
| "inference_event (Prediction_box emoji color label c) = True"
| "inference_event _ = False"

fun shown_confidence :: "event \<Rightarrow> real option" where
  "shown_confidence (Prediction_box emoji color label c) = Some c"
| "shown_confidence _ = None"

definition nonneg_confidence :: "event \<Rightarrow> bool" where
  "nonneg_confidence ev = (case shown_confidence ev of None \<Rightarrow> True | Some c \<Rightarrow> 0 \<le> c)"

text \<open>Both artifacts were unpickled.\<close>

definition loaded :: "('h, 'v) env \<Rightarrow> bool" where
  "loaded e =
     (case (load_model_pkl e, load_vectorizer_pkl e) of (Inr m, Inr vz) \<Rightarrow> True | _ \<Rightarrow> False)"

text \<open>An artifact file was not found: the first \<open>joblib.load\<close> raised
  \<open>FileNotFoundError\<close>, or it returned and the second one raised it.\<close>

definition not_found :: "('h, 'v) env \<Rightarrow> bool" where
  "not_found e =
     (case load_model_pkl e of
        Inl x \<Rightarrow> x = FileNotFoundError
      | Inr m \<Rightarrow> (case load_vectorizer_pkl e of Inl x \<Rightarrow> x = FileNotFoundError | Inr vz \<Rightarrow> False))"

text \<open>"The space-joined concatenation of those tokens", and a cell deserialized so.\<close>

fun space_joined :: "pystr list \<Rightarrow> pystr" where
  "space_joined [] = []"
| "space_joined [t] = t"
| "space_joined (t # u # ts) = t @ '' '' @ space_joined (u # ts)"

definition detokenized :: "(pystr \<Rightarrow> pystr list) \<Rightarrow> cell \<Rightarrow> cell" where
  "detokenized tokens c = (case c of CStr x \<Rightarrow> CStr (space_joined (tokens x)) | _ \<Rightarrow> c)"

text \<open>"Immutable artifacts": no method of the pair changes the objects' state.\<close>

definition read_only :: "('h, 'v) model_obj \<Rightarrow> ('h, 'v) vectorizer_obj \<Rightarrow> bool" where
  "read_only m vz =
     (\<forall>h. (\<forall>texts. snd (transform vz texts h) = h) \<and>
          (\<forall>x. snd (predict m x h) = h \<and> snd (decision_function m x h) = h))"

subsection \<open>Invariants of a run\<close>

definition preserves :: "(('h, 'v) state \<Rightarrow> bool) \<Rightarrow> ('a, 'h, 'v) prog \<Rightarrow> bool" where
  "preserves I p = (\<forall>s. I s \<longrightarrow> I (snd (p s)))"

definition all_events :: "(event \<Rightarrow> bool) \<Rightarrow> ('h, 'v) state \<Rightarrow> bool" where
  "all_events P s = (\<forall>ev \<in> set (trace s). P ev)"

text \<open>An invariant that appending events other than those of the prediction form and of
  inference cannot break; the state in which an artifact variable is \<open>None\<close>.\<close>

definition appends_ok :: "(('h, 'v) state \<Rightarrow> bool) \<Rightarrow> bool" where
  "appends_ok I =
     (\<forall>s evs. I s \<and> list_all (\<lambda>ev. \<not> inference_event ev) evs \<longrightarrow> I (s\<lparr>trace := trace s @ evs\<rparr>))"

definition artifacts_unset :: "('h, 'v) state \<Rightarrow> bool" where
  "artifacts_unset s = (model s = None \<or> vectorizer s = None)"

definition disabled :: "('h, 'v) state \<Rightarrow> bool" where
  "disabled s = (artifacts_unset s \<and> all_events (\<lambda>ev. \<not> inference_event ev) s)"

text \<open>The script from line 105 on, and a part of a run whose result and events do not
  depend on the artifact variables or on what was rendered before it.\<close>

definition after_load :: "('h, 'v) env \<Rightarrow> (unit, 'h, 'v) prog" where
  "after_load e =
     bind_prog (load_data e) (\<lambda>d.
     bind_prog (set_df d) (\<lambda>_.
     bind_prog (emit [Markdown ''Navigation'', Radio_menu]) (\<lambda>_.
     bind_prog (view e) (\<lambda>_.
     emit [Markdown ''---'', Markdown ''footer'']))))"

definition ignores_artifacts :: "('a, 'h, 'v) prog \<Rightarrow> bool" where
  "ignores_artifacts p =
     (\<forall>s m vz t.
        p (s\<lparr>model := m, vectorizer := vz, trace := t\<rparr>) =
          (case p (s\<lparr>trace := []\<rparr>) of
             (r, s1) \<Rightarrow> (r, s1\<lparr>model := m, vectorizer := vz, trace := t @ trace s1\<rparr>)))"

subsection \<open>Example inputs\<close>

text \<open>A two-class model that answers \<open>Positif\<close> with margin \<open>-1.5\<close>, a three-row
  dataset, and \<open>ast.literal_eval\<close> on the cells that occur in it.\<close>

definition example_vectorizer :: "(unit, nat) vectorizer_obj" where
  "example_vectorizer = \<lparr>transform = (\<lambda>texts h. (Inr (length (concat texts)), h))\<rparr>"

definition example_model :: "(unit, nat) model_obj" where
  "example_model =
     \<lparr>predict = (\<lambda>x h. (Inr [PStr ''Positif''], h)),
      decision_function = (\<lambda>x h. (Inr [Scalar (- (3 / 2))], h))\<rparr>"

definition example_literal_eval :: "pystr \<Rightarrow> exn + pyval" where
  "example_literal_eval s =
     (if s = ''['bagus', 'sekali']'' then Inr (PList [PStr ''bagus'', PStr ''sekali''])
      else if s = ''['lambat']'' then Inr (PList [PStr ''lambat''])
      else Inl SyntaxError)"

definition example_df :: dataframe where
  "example_df =
     [(''content'', [CStr ''Bagus sekali'', CStr ''Lambat'', CStr ''!!'']),
      (''stemming'', [CStr ''['bagus', 'sekali']'', CStr ''['lambat']'', CNaN]),
      (''label'', [CStr ''positif'', CStr ''negatif'', CStr ''positif''])]"

definition example_env :: "(unit, nat) env" where
  "example_env =
     \<lparr>load_model_pkl = Inr example_model,
      load_vectorizer_pkl = Inr example_vectorizer,
      read_csv = Inr example_df,
      literal_eval = example_literal_eval,
      image_open = (\<lambda>path. Inr 0),
      option = Prediksi_Manual,
      show_rows_choice = 0,
      user_input = ''Aplikasi ini sangat membantu'',
      button = True\<rparr>"

definition example_state :: "(unit, nat) state" where
  "example_state =
     \<lparr>heap = (), model = Some example_model, vectorizer = Some example_vectorizer,
      df = None, trace = []\<rparr>"

text \<open>The example dataset after \<open>load_data\<close>.\<close>

definition example_df_loaded :: dataframe where
  "example_df_loaded =
     [(''content'', [CStr ''Bagus sekali'', CStr ''Lambat'', CStr ''!!'']),
      (''stemming'', [CStr ''bagus sekali'', CStr ''lambat'', CNaN]),
      (''label'', [CStr ''positif'', CStr ''negatif'', CStr ''positif''])]"

section \<open>Properties\<close>

lemmas prog_defs = bind_prog_def return_def lift_def emit_def
  try_except_FileNotFoundError_def try_except_Exception_def

subsection \<open>Strings\<close>

lemma of_char_lt_256: "of_char c < (256::nat)"
  by (metis of_char_mod_256 mod_less_divisor zero_less_numeral)

lemma lower_char_ascii_iff:
  assumes "97 \<le> (of_char d :: nat)" and "(of_char d :: nat) \<le> 122"
  shows "lower_char c = d \<longleftrightarrow> c = d \<or> c = upper_ascii d"
proof -
  have c: "of_char c < (256::nat)" by (rule of_char_lt_256)
  have "(lower_char c = d) = ((of_char (lower_char c) :: nat) = of_char d)" by simp
  also have "\<dots> = ((of_char c :: nat) = of_char d \<or> (of_char c :: nat) = of_char (upper_ascii d))"
    using assms c by (auto simp: lower_char_def upper_ascii_def Let_def)
  also have "\<dots> = (c = d \<or> c = upper_ascii d)" by simp
  finally show ?thesis .
qed

lemma lower_eq_iff:
  assumes "\<forall>d \<in> set literal. 97 \<le> (of_char d :: nat) \<and> (of_char d :: nat) \<le> 122"
  shows "lower s = literal \<longleftrightarrow> casing_of literal s"
  using assms
proof (induction s arbitrary: literal)
  case Nil
  then show ?case by (auto simp: lower_def casing_of_def)
next
  case (Cons c s)
  show ?case
  proof (cases literal)
    case Nil
    then show ?thesis by (simp add: lower_def casing_of_def)
  next
    case (Cons d ds)
    with Cons.prems Cons.IH[of ds] show ?thesis
      by (auto simp: lower_def casing_of_def lower_char_ascii_iff)
  qed
qed

lemma lower_positif: "lower s = ''positif'' \<longleftrightarrow> casing_of ''positif'' s"
  by (rule lower_eq_iff) simp

lemma lower_negatif: "lower s = ''negatif'' \<longleftrightarrow> casing_of ''negatif'' s"
  by (rule lower_eq_iff) simp

lemma all_dropWhile: "(\<forall>x \<in> set (dropWhile P s). P x) \<longleftrightarrow> (\<forall>x \<in> set s. P x)"
  by (induction s) auto

lemma strip_empty_iff: "strip s = [] \<longleftrightarrow> (\<forall>c \<in> set s. isspace c)"
  by (simp add: strip_def dropWhile_eq_Nil_conv all_dropWhile)

lemma style_of_PStr:
  "style_of (PStr l) =
     Inr (if lower l = ''positif'' then (Smiling_face, ''#4CAF50'')
          else if lower l = ''negatif'' then (Disappointed_face, ''#F44336'')
          else (Neutral_face, ''#FF9800''))"
  by (simp add: style_of_def)

lemma lower_Positif: "lower ''Positif'' = ''positif''"
  by code_simp

lemma strip_example: "strip ''Aplikasi ini sangat membantu'' \<noteq> []"
  by (simp add: strip_def isspace_def)

lemma casing_examples:
  "casing_of ''positif'' ''POSITIF''" "casing_of ''negatif'' ''Negatif''"
  "\<not> casing_of ''positif'' ''netral''" "\<not> casing_of ''negatif'' ''netral''"
  "\<not> casing_of ''positif'' ''Negatif''"
  by code_simp+

subsection \<open>The example inputs\<close>

lemma example_state_simps:
  "model example_state = Some example_model"
  "vectorizer example_state = Some example_vectorizer"
  "heap example_state = ()" "trace example_state = []"
  by (simp_all add: example_state_def)

lemma example_env_simps:
  "user_input example_env = ''Aplikasi ini sangat membantu''"
  "button example_env"
  "option example_env = Prediksi_Manual"
  "load_model_pkl example_env = Inr example_model"
  "load_vectorizer_pkl example_env = Inr example_vectorizer"
  "read_csv example_env = Inr example_df"
  "literal_eval example_env = example_literal_eval"
  by (simp_all add: example_env_def)

subsection \<open>Classification\<close>

text \<open>
  C1. With both artifacts loaded, the button pressed and a text that is not empty after
  stripping, the run calls \<open>transform\<close> on the one-element list holding the text as it
  was typed, then \<open>predict\<close> and \<open>decision_function\<close> on the vector \<open>transform\<close>
  returned. When the three calls return and give a string label and a scalar margin, the
  result box shows the first element of \<open>predict\<close>'s output and the absolute value of
  the first element of \<open>decision_function\<close>'s output, and nothing else is rendered.
\<close>

theorem classify_computation:
  assumes "strip (user_input e) \<noteq> []" and "button e"
    and "model s = Some m" and "vectorizer s = Some vz"
    and "transform vz [user_input e] (heap s) = (Inr x, h1)"
    and "predict m x h1 = (Inr (PStr l # ls), h2)"
    and "decision_function m x h2 = (Inr (Scalar c # cs), h3)"
  shows "\<exists>emoji color. style_of (PStr l) = Inr (emoji, color) \<and>
           prediksi_manual e s =
             (Inr (), s\<lparr>heap := h3,
                         trace := trace s @
                           [Markdown ''## Prediksi Sentimen Manual'',
                            Markdown ''### Masukkan Ulasan Anda'', Text_area,
                            Markdown ''### Tips'', St_info ''Tips'', Button,
                            Call_transform [user_input e], Call_predict, Call_decision_function,
                            Prediction_box emoji color (PStr l) \<bar>c\<bar>]\<rparr>)"
proof -
  obtain emoji color where st: "style_of (PStr l) = Inr (emoji, color)"
    by (cases "lower l = ''positif''"; cases "lower l = ''negatif''"; simp add: style_of_PStr)
  have "prediksi m vz (user_input e)
          (s\<lparr>trace := trace s @
               [Markdown ''## Prediksi Sentimen Manual'',
                Markdown ''### Masukkan Ulasan Anda'', Text_area,
                Markdown ''### Tips'', St_info ''Tips'', Button]\<rparr>) =
        (Inr (), s\<lparr>heap := h3,
                         trace := trace s @
                           [Markdown ''## Prediksi Sentimen Manual'',
                            Markdown ''### Masukkan Ulasan Anda'', Text_area,
                            Markdown ''### Tips'', St_info ''Tips'', Button,
                            Call_transform [user_input e], Call_predict, Call_decision_function,
                            Prediction_box emoji color (PStr l) \<bar>c\<bar>]\<rparr>)"
    using assms(5-7) st
    by (simp add: prediksi_def prog_defs call_transform_def call_predict_def
        call_decision_function_def index0_def)
  then have "prediksi_manual e s = (Inr (), s\<lparr>heap := h3,
                         trace := trace s @
                           [Markdown ''## Prediksi Sentimen Manual'',
                            Markdown ''### Masukkan Ulasan Anda'', Text_area,
                            Markdown ''### Tips'', St_info ''Tips'', Button,
                            Call_transform [user_input e], Call_predict, Call_decision_function,
                            Prediction_box emoji color (PStr l) \<bar>c\<bar>]\<rparr>)"
    using assms(1-4) by (simp add: prediksi_manual_def prog_defs)
  with st show ?thesis by blast
qed

theorem classify_computation_witness:
  "strip (user_input example_env) \<noteq> [] \<and>
   prediksi_manual example_env example_state =
     (Inr (), example_state\<lparr>trace :=
         [Markdown ''## Prediksi Sentimen Manual'',
          Markdown ''### Masukkan Ulasan Anda'', Text_area,
          Markdown ''### Tips'', St_info ''Tips'', Button,
          Call_transform [''Aplikasi ini sangat membantu''], Call_predict,
          Call_decision_function,
          Prediction_box Smiling_face ''#4CAF50'' (PStr ''Positif'') (3 / 2)]\<rparr>)"
proof -
  have 1: "strip (user_input example_env) \<noteq> []"
    by (simp add: example_env_simps strip_example)
  have 5: "transform example_vectorizer [user_input example_env] (heap example_state) = (Inr 28, ())"
    by (simp add: example_vectorizer_def example_env_simps)
  have 6: "predict example_model 28 () = (Inr (PStr ''Positif'' # []), ())"
    by (simp add: example_model_def)
  have 7: "decision_function example_model 28 () = (Inr (Scalar (- (3 / 2)) # []), ())"
    by (simp add: example_model_def)
  from classify_computation [OF 1 example_env_simps(2) example_state_simps(1,2) 5 6 7]
  show ?thesis
    using 1 by (auto simp: style_of_PStr lower_Positif example_state_def example_env_simps)
qed

text \<open>
  C2. For every string label: a casing of \<open>positif\<close> gets the positive category, a
  casing of \<open>negatif\<close> the negative one, and every other string the neutral one; the
  mapping returns a category (\<open>Inr\<close>) in each case, never an exception.
\<close>

theorem label_presentation_mapping:
  "style_of (PStr l) =
     Inr (if casing_of ''positif'' l then positive_category
          else if casing_of ''negatif'' l then negative_category
          else neutral_category)"
  by (simp add: style_of_PStr lower_positif lower_negatif positive_category_def
      negative_category_def neutral_category_def)

theorem label_presentation_mapping_witness:
  "style_of (PStr ''POSITIF'') = Inr positive_category \<and>
   style_of (PStr ''Negatif'') = Inr negative_category \<and>
   style_of (PStr ''netral'') = Inr neutral_category"
  using label_presentation_mapping [of "''POSITIF''"] label_presentation_mapping [of "''Negatif''"]
    label_presentation_mapping [of "''netral''"] casing_examples
  by simp

text \<open>
  C4. When the text is empty or all whitespace and the button is pressed, the view shows
  the form and then the warning that asks for a text: the trace holds no call of
  \<open>transform\<close>, \<open>predict\<close> or \<open>decision_function\<close>, and the heap is untouched.
\<close>

theorem empty_input_short_circuit:
  assumes "\<forall>c \<in> set (user_input e). isspace c" and "button e"
    and "model s = Some m" and "vectorizer s = Some vz"
  shows "prediksi_manual e s =
           (Inr (), s\<lparr>trace := trace s @
                           [Markdown ''## Prediksi Sentimen Manual'',
                            Markdown ''### Masukkan Ulasan Anda'', Text_area,
                            Markdown ''### Tips'', St_info ''Tips'', Button,
                            St_warning_empty_input]\<rparr>)"
proof -
  from assms(1) have "strip (user_input e) = []" by (simp add: strip_empty_iff)
  with assms(2-4) show ?thesis by (simp add: prediksi_manual_def prog_defs)
qed

theorem empty_input_short_circuit_witness:
  "strip ''   '' = [] \<and>
   prediksi_manual (example_env\<lparr>user_input := ''   ''\<rparr>) example_state =
     (Inr (), example_state\<lparr>trace :=
         [Markdown ''## Prediksi Sentimen Manual'',
          Markdown ''### Masukkan Ulasan Anda'', Text_area,
          Markdown ''### Tips'', St_info ''Tips'', Button,
          St_warning_empty_input]\<rparr>) \<and>
   prediksi_manual (example_env\<lparr>user_input := []\<rparr>) example_state =
     (Inr (), example_state\<lparr>trace :=
         [Markdown ''## Prediksi Sentimen Manual'',
          Markdown ''### Masukkan Ulasan Anda'', Text_area,
          Markdown ''### Tips'', St_info ''Tips'', Button,
          St_warning_empty_input]\<rparr>)"
  using empty_input_short_circuit [of "example_env\<lparr>user_input := ''   ''\<rparr>" example_state
      example_model example_vectorizer]
    empty_input_short_circuit [of "example_env\<lparr>user_input := []\<rparr>" example_state
      example_model example_vectorizer]
  by (simp add: isspace_def strip_def example_env_simps example_state_simps)

subsection \<open>Invariants along a run\<close>

lemma preserves_return: "preserves I (return a)"
  by (simp add: preserves_def return_def)

lemma preserves_lift: "preserves I (lift r)"
  by (simp add: preserves_def lift_def)

lemma preserves_raise: "preserves I (\<lambda>s. (Inl x, s))"
  by (simp add: preserves_def)

lemma preserves_bind_result:
  assumes "preserves I m" and "\<And>s a s'. I s \<Longrightarrow> m s = (Inr a, s') \<Longrightarrow> preserves I (f a)"
  shows "preserves I (bind_prog m f)"
  unfolding preserves_def
proof (intro allI impI)
  fix s assume s: "I s"
  with assms(1) have m: "I (snd (m s))" by (simp add: preserves_def)
  show "I (snd (bind_prog m f s))"
  proof (cases "m s")
    case (Pair r s')
    with m have s': "I s'" by simp
    show ?thesis
    proof (cases r)
      case (Inl x)
      with Pair s' show ?thesis by (simp add: bind_prog_def)
    next
      case (Inr a)
      with Pair s s' assms(2)[of s a s'] show ?thesis by (simp add: bind_prog_def preserves_def)
    qed
  qed
qed

lemma preserves_bind:
  assumes "preserves I m" and "\<And>a. preserves I (f a)"
  shows "preserves I (bind_prog m f)"
  using assms by (intro preserves_bind_result)

lemma preserves_try_fnf:
  assumes "preserves I body" and "preserves I handler"
  shows "preserves I (try_except_FileNotFoundError body handler)"
  unfolding preserves_def
proof (intro allI impI)
  fix s assume "I s"
  with assms(1) have m: "I (snd (body s))" by (simp add: preserves_def)
  show "I (snd (try_except_FileNotFoundError body handler s))"
  proof (cases "body s")
    case (Pair r s')
    with m have s': "I s'" by simp
    show ?thesis
    proof (cases r)
      case (Inl x)
      with Pair s' assms(2) show ?thesis
        by (simp add: try_except_FileNotFoundError_def preserves_def)
    next
      case (Inr a)
      with Pair s' show ?thesis by (simp add: try_except_FileNotFoundError_def)
    qed
  qed
qed

lemma preserves_try_exception:
  assumes "preserves I body" and "\<And>x. preserves I (handler x)"
  shows "preserves I (try_except_Exception body handler)"
  unfolding preserves_def
proof (intro allI impI)
  fix s assume "I s"
  with assms(1) have m: "I (snd (body s))" by (simp add: preserves_def)
  show "I (snd (try_except_Exception body handler s))"
  proof (cases "body s")
    case (Pair r s')
    with m have s': "I s'" by simp
    show ?thesis
    proof (cases r)
      case (Inl x)
      with Pair s' assms(2)[of x] show ?thesis
        by (simp add: try_except_Exception_def preserves_def)
    next
      case (Inr a)
      with Pair s' show ?thesis by (simp add: try_except_Exception_def)
    qed
  qed
qed

lemma preserves_case_df:
  assumes "preserves I p" and "\<And>d. preserves I (q d)"
  shows "preserves I (\<lambda>s. case df s of None \<Rightarrow> p s | Some d \<Rightarrow> q d s)"
  using assms by (auto simp: preserves_def split: option.splits)

lemma preserves_if:
  assumes "preserves I p" and "preserves I q"
  shows "preserves I (\<lambda>s. if c then p s else q s)"
  using assms by (simp add: preserves_def)

lemma preserves_eta: "preserves I p \<Longrightarrow> preserves I (\<lambda>s. p s)"
  by simp

lemma preserves_emit:
  assumes "appends_ok I" and "list_all (\<lambda>ev. \<not> inference_event ev) evs"
  shows "preserves I (emit evs)"
  using assms by (simp add: preserves_def emit_def appends_ok_def)

lemma preserves_load_models: "appends_ok I \<Longrightarrow> preserves I (load_models e)"
  unfolding load_models_def
  by (intro preserves_try_fnf preserves_bind preserves_lift preserves_return preserves_emit)
     simp_all

lemma preserves_load_data: "appends_ok I \<Longrightarrow> preserves I (load_data e)"
  unfolding load_data_def
  by (intro preserves_try_fnf preserves_bind preserves_lift preserves_return preserves_emit)
     simp_all

lemma preserves_dashboard: "appends_ok I \<Longrightarrow> preserves I dashboard"
  unfolding dashboard_def
  by (intro preserves_bind preserves_case_df preserves_if preserves_raise preserves_return
        preserves_emit) simp_all

lemma preserves_dataset_view: "appends_ok I \<Longrightarrow> preserves I (dataset_view e)"
  unfolding dataset_view_def Let_def
  by (intro preserves_bind preserves_case_df preserves_return preserves_emit) simp_all

lemma preserves_word_clouds: "appends_ok I \<Longrightarrow> preserves I (word_clouds e)"
  unfolding word_clouds_def
  by (intro preserves_try_fnf preserves_bind preserves_lift preserves_return preserves_emit)
     simp_all

lemma preserves_metrics:
  assumes "appends_ok I"
  shows "preserves I (metrics labels total_data sentiments)"
proof (induction sentiments)
  case Nil
  show ?case by (simp add: preserves_return)
next
  case (Cons sentiment rest)
  show ?case
    unfolding metrics.simps
    apply (rule preserves_bind)
     apply (cases sentiment; simp add: Let_def preserves_lift preserves_emit assms)
    apply (rule Cons.IH)
    done
qed

lemma preserves_visualisasi: "appends_ok I \<Longrightarrow> preserves I (visualisasi e)"
  unfolding visualisasi_def
  by (intro preserves_bind preserves_case_df preserves_if preserves_return preserves_emit
        preserves_word_clouds preserves_metrics) simp_all

subsection \<open>The confidence shown\<close>

lemma appends_ok_nonneg: "appends_ok (all_events nonneg_confidence)"
proof -
  have "\<not> inference_event ev \<Longrightarrow> nonneg_confidence ev" for ev
    by (cases ev) (simp_all add: nonneg_confidence_def)
  then show ?thesis
    by (auto simp: appends_ok_def all_events_def list_all_iff)
qed

lemma abs_confidence_nonneg: "abs_confidence x = Inr c \<Longrightarrow> 0 \<le> c"
  by (cases x) auto

lemma nonneg_prediksi: "preserves (all_events nonneg_confidence) (prediksi m vz text)"
  by (auto simp: preserves_def all_events_def nonneg_confidence_def prediksi_def prog_defs
      call_transform_def call_predict_def call_decision_function_def index0_def
      split: prod.splits sum.splits list.splits dest: abs_confidence_nonneg)

lemma nonneg_emit:
  "list_all nonneg_confidence evs \<Longrightarrow> preserves (all_events nonneg_confidence) (emit evs)"
  by (auto simp: preserves_def emit_def all_events_def list_all_iff)

lemma nonneg_form:
  "preserves (all_events nonneg_confidence)
      (bind_prog (emit [Markdown ''### Masukkan Ulasan Anda'', Text_area,
                             Markdown ''### Tips'', St_info ''Tips'', Button]) (\<lambda>_.
              if button e then
                if strip (user_input e) \<noteq> [] then
                  try_except_Exception (prediksi m vz (user_input e))
                    (\<lambda>x. emit [St_error (Prediction_failed x)])
                else emit [St_warning_empty_input]
              else return ()))"
  by (intro preserves_bind nonneg_emit)
     (simp_all add: nonneg_confidence_def preserves_return nonneg_emit
        preserves_try_exception nonneg_prediksi)

lemma nonneg_prediksi_manual: "preserves (all_events nonneg_confidence) (prediksi_manual e)"
  unfolding prediksi_manual_def
  apply (intro preserves_bind nonneg_emit)
   apply (simp add: nonneg_confidence_def)
  using nonneg_form [of e]
  apply (auto simp: preserves_def return_def split: option.splits)
  done

lemma preserves_set_df: "appends_ok I \<Longrightarrow> (\<And>s d. I s \<Longrightarrow> I (s\<lparr>df := d\<rparr>)) \<Longrightarrow> preserves I (set_df d)"
  by (simp add: preserves_def set_df_def)

lemma nonneg_view: "preserves (all_events nonneg_confidence) (view e)"
  by (cases "option e")
     (simp_all add: view_def preserves_dashboard preserves_dataset_view
        preserves_visualisasi nonneg_prediksi_manual appends_ok_nonneg)

lemma nonneg_run: "preserves (all_events nonneg_confidence) (run e)"
  unfolding run_def
  apply (intro preserves_bind preserves_emit preserves_load_models preserves_load_data
        nonneg_view appends_ok_nonneg)
      apply (simp_all add: preserves_def set_globals_def set_df_def all_events_def)
  done

lemma load_models_example:
  "load_models example_env s = (Inr (Some example_model, Some example_vectorizer), s)"
  by (simp add: load_models_def prog_defs example_env_simps)

lemma load_data_example:
  "read_csv e = Inr example_df \<Longrightarrow> literal_eval e = example_literal_eval \<Longrightarrow>
   load_data e s = (Inr (Some example_df_loaded), s)"
  by (simp add: load_data_def prog_defs example_df_def example_df_loaded_def
      getitem_def setitem_def stemming_lambda_def example_literal_eval_def str_join_def)

lemma prediksi_manual_example:
  "model s = Some example_model \<Longrightarrow> vectorizer s = Some example_vectorizer \<Longrightarrow>
   prediksi_manual example_env s =
     (Inr (), s\<lparr>trace := trace s @
         [Markdown ''## Prediksi Sentimen Manual'',
          Markdown ''### Masukkan Ulasan Anda'', Text_area,
          Markdown ''### Tips'', St_info ''Tips'', Button,
          Call_transform [''Aplikasi ini sangat membantu''], Call_predict,
          Call_decision_function,
          Prediction_box Smiling_face ''#4CAF50'' (PStr ''Positif'') (3 / 2)]\<rparr>)"
  by (simp add: prediksi_manual_def prediksi_def prog_defs call_transform_def call_predict_def
      call_decision_function_def index0_def example_env_simps strip_example
      example_model_def example_vectorizer_def style_of_PStr lower_Positif)

lemma run_example:
  "run example_env (init ()) =
     (Inr (), \<lparr>heap = (), model = Some example_model, vectorizer = Some example_vectorizer,
              df = Some example_df_loaded,
              trace = [Set_page_config, Markdown ''<style>'', Markdown ''main-header'',
                Markdown ''Navigation'', Radio_menu,
                Markdown ''## Prediksi Sentimen Manual'',
                Markdown ''### Masukkan Ulasan Anda'', Text_area,
                Markdown ''### Tips'', St_info ''Tips'', Button,
                Call_transform [''Aplikasi ini sangat membantu''], Call_predict,
                Call_decision_function,
                Prediction_box Smiling_face ''#4CAF50'' (PStr ''Positif'') (3 / 2),
                Markdown ''---'', Markdown ''footer'']\<rparr>)"
  by (simp add: run_def view_def bind_prog_def emit_def load_models_example load_data_example
      set_globals_def set_df_def prediksi_manual_example example_env_simps init_def)

text \<open>
  C3. Whatever the inputs of a run (the text, the artifacts and the margins they return,
  of either sign), every confidence that the run shows in a result box is at least zero.
\<close>

theorem confidence_non_negative:
  "Prediction_box emoji color label c \<in> set (trace (snd (run e (init h)))) \<Longrightarrow> 0 \<le> c"
proof -
  assume a: "Prediction_box emoji color label c \<in> set (trace (snd (run e (init h))))"
  have "all_events nonneg_confidence (init h :: ('a, 'b) state)"
    by (simp add: all_events_def init_def)
  with nonneg_run[of e] have "all_events nonneg_confidence (snd (run e (init h)))"
    by (simp add: preserves_def)
  with a have "nonneg_confidence (Prediction_box emoji color label c)"
    by (auto simp: all_events_def)
  then show ?thesis by (simp add: nonneg_confidence_def)
qed

theorem confidence_non_negative_witness:
  "Prediction_box Smiling_face ''#4CAF50'' (PStr ''Positif'') (3 / 2)
     \<in> set (trace (snd (run example_env (init ())))) \<and> (0::real) \<le> 3 / 2"
  using confidence_non_negative [of Smiling_face "''#4CAF50''" "PStr ''Positif''" "3 / 2"
      example_env "()"]
  by (simp add: run_example)

subsection \<open>Without artifacts\<close>

lemma appends_ok_disabled: "appends_ok disabled"
  by (auto simp: appends_ok_def disabled_def artifacts_unset_def all_events_def list_all_iff)

lemma disabled_prediksi_manual: "preserves disabled (prediksi_manual e)"
  unfolding prediksi_manual_def
  apply (intro preserves_bind preserves_emit appends_ok_disabled)
   apply simp
  apply (auto simp: preserves_def return_def disabled_def artifacts_unset_def split: option.splits)
  done

lemma disabled_view: "preserves disabled (view e)"
  by (cases "option e")
     (simp_all add: view_def preserves_dashboard preserves_dataset_view
        preserves_visualisasi disabled_prediksi_manual appends_ok_disabled)

lemma load_models_not_loaded:
  assumes "\<not> loaded e" and "load_models e s = (Inr mv, s')"
  shows "mv = (None, None)"
  using assms
  by (auto simp: loaded_def load_models_def prog_defs split: sum.splits if_splits)

lemma disabled_run:
  assumes "\<not> loaded e"
  shows "preserves disabled (run e)"
  unfolding run_def
  apply (rule preserves_bind)
   apply (simp add: preserves_emit appends_ok_disabled)
  apply (rule preserves_bind_result)
   apply (simp add: preserves_load_models appends_ok_disabled)
  apply (drule load_models_not_loaded [OF assms])
  apply (intro preserves_bind preserves_emit preserves_load_data disabled_view appends_ok_disabled)
      apply (simp_all add: preserves_def set_globals_def set_df_def disabled_def
        artifacts_unset_def all_events_def)
  done

text \<open>
  C10. While \<open>model\<close> or \<open>vectorizer\<close> is \<open>None\<close>, the Prediksi Manual view renders
  its heading and nothing more: no text area, no button, no call. And in a whole run in
  which the two artifacts were not both unpickled, whatever the menu choice, the trace
  holds no text area, no button, no call of \<open>transform\<close>, \<open>predict\<close> or
  \<open>decision_function\<close>, and no result box.
\<close>

theorem no_inference_without_artifacts:
  "(model s = None \<or> vectorizer s = None \<longrightarrow>
      prediksi_manual e s =
        (Inr (), s\<lparr>trace := trace s @ [Markdown ''## Prediksi Sentimen Manual'']\<rparr>)) \<and>
   (\<not> loaded e' \<longrightarrow> (\<forall>ev \<in> set (trace (snd (run e' (init h)))). \<not> inference_event ev))"
proof (intro conjI impI)
  assume "model s = None \<or> vectorizer s = None"
  then show "prediksi_manual e s =
        (Inr (), s\<lparr>trace := trace s @ [Markdown ''## Prediksi Sentimen Manual'']\<rparr>)"
    by (auto simp: prediksi_manual_def prog_defs split: option.splits)
next
  assume "\<not> loaded e'"
  then have "preserves disabled (run e')" by (rule disabled_run)
  moreover have "disabled (init h :: ('c, 'd) state)"
    by (simp add: disabled_def artifacts_unset_def all_events_def init_def)
  ultimately have "disabled (snd (run e' (init h)))" by (simp add: preserves_def)
  then show "\<forall>ev \<in> set (trace (snd (run e' (init h)))). \<not> inference_event ev"
    by (simp add: disabled_def all_events_def)
qed

theorem no_inference_without_artifacts_witness:
  "prediksi_manual example_env (init ()) =
     (Inr (), (init ())\<lparr>trace := [Markdown ''## Prediksi Sentimen Manual'']\<rparr>) \<and>
   Text_area \<notin> set (trace (snd (run (example_env\<lparr>load_vectorizer_pkl := Inl FileNotFoundError\<rparr>) (init ())))) \<and>
   Button \<notin> set (trace (snd (run (example_env\<lparr>load_vectorizer_pkl := Inl FileNotFoundError\<rparr>) (init ())))) \<and>
   Call_transform [''Aplikasi ini sangat membantu'']
     \<notin> set (trace (snd (run (example_env\<lparr>load_vectorizer_pkl := Inl FileNotFoundError\<rparr>) (init ()))))"
  using no_inference_without_artifacts [of "init ()" example_env
      "example_env\<lparr>load_vectorizer_pkl := Inl FileNotFoundError\<rparr>" "()"]
  by (auto simp: init_def loaded_def example_env_def)

subsection \<open>Missing files\<close>

text \<open>
  C6. With the dataset file absent, the artifacts loaded and the Dashboard chosen (the
  menu's default), the run reports the missing dataset and then ends with
  \<open>AttributeError\<close> at line 125: the chart and the footer are not rendered.
\<close>

theorem dashboard_without_dataset:
  "run (example_env\<lparr>read_csv := Inl FileNotFoundError, option := Dashboard\<rparr>) (init ()) =
     (Inl AttributeError,
      \<lparr>heap = (), model = Some example_model, vectorizer = Some example_vectorizer, df = None,
       trace = [Set_page_config, Markdown ''<style>'', Markdown ''main-header'',
                St_error Dataset_not_found, Markdown ''Navigation'', Radio_menu,
                Markdown ''### Distribusi Sentimen Cepat'']\<rparr>)"
  by (simp add: run_def view_def load_models_def load_data_def dashboard_def prog_defs
      set_globals_def set_df_def example_env_def init_def)

text \<open>
  C5, the claim as stated fails: when unpickling the model raises anything but
  \<open>FileNotFoundError\<close>, nothing is reported, the exception leaves the script, and the
  Dataset view that was chosen is not rendered.
\<close>

theorem artifact_unpickling_counterexample:
  "run (example_env\<lparr>load_model_pkl := Inl (OtherError ''UnpicklingError''), option := Dataset\<rparr>)
      (init ()) =
     (Inl (OtherError ''UnpicklingError''),
      \<lparr>heap = (), model = None, vectorizer = None, df = None,
       trace = [Set_page_config, Markdown ''<style>'', Markdown ''main-header'']\<rparr>)"
  by (simp add: run_def load_models_def prog_defs example_env_def init_def)

lemma load_models_not_found:
  "not_found e \<Longrightarrow>
   load_models e s = (Inr (None, None), s\<lparr>trace := trace s @ [St_error Model_not_found]\<rparr>)"
  by (auto simp: not_found_def load_models_def prog_defs split: sum.splits)

lemma run_after_load:
  "run e =
     bind_prog (emit [Set_page_config, Markdown ''<style>'', Markdown ''main-header'']) (\<lambda>_.
     bind_prog (load_models e) (\<lambda>mv.
     bind_prog (set_globals mv) (\<lambda>_. after_load e)))"
  by (simp add: run_def after_load_def)

lemma ignores_return: "ignores_artifacts (return a)"
  by (simp add: ignores_artifacts_def return_def)

lemma ignores_lift: "ignores_artifacts (lift r)"
  by (simp add: ignores_artifacts_def lift_def)

lemma ignores_raise: "ignores_artifacts (\<lambda>s. (Inl x, s))"
  by (simp add: ignores_artifacts_def)

lemma ignores_emit: "ignores_artifacts (emit evs)"
  by (simp add: ignores_artifacts_def emit_def)

lemma ignores_set_df: "ignores_artifacts (set_df d)"
  by (simp add: ignores_artifacts_def set_df_def)

lemma ignores_at:
  assumes "ignores_artifacts p" and "p (s\<lparr>trace := []\<rparr>) = (r, s1)"
  shows "p (s\<lparr>model := m, vectorizer := vz, trace := t\<rparr>) =
           (r, s1\<lparr>model := m, vectorizer := vz, trace := t @ trace s1\<rparr>)"
  using assms by (simp add: ignores_artifacts_def)

lemma ignores_here:
  assumes "ignores_artifacts p" and "p (s\<lparr>trace := []\<rparr>) = (r, s1)"
  shows "p s = (r, s1\<lparr>model := model s, vectorizer := vectorizer s, trace := trace s @ trace s1\<rparr>)"
  using ignores_at [OF assms, where m = "model s" and vz = "vectorizer s" and t = "trace s"] by simp

lemma ignores_bind:
  assumes p: "ignores_artifacts p" and f: "\<And>a. ignores_artifacts (f a)"
  shows "ignores_artifacts (bind_prog p f)"
  unfolding ignores_artifacts_def
proof (intro allI)
  fix s m vz t
  obtain r1 s1 where 1: "p (s\<lparr>trace := []\<rparr>) = (r1, s1)" by (cases "p (s\<lparr>trace := []\<rparr>)")
  note lifted = ignores_at [OF p 1, where m = m and vz = vz and t = t]
  show "bind_prog p f (s\<lparr>model := m, vectorizer := vz, trace := t\<rparr>) =
          (case bind_prog p f (s\<lparr>trace := []\<rparr>) of
             (r, s1) \<Rightarrow> (r, s1\<lparr>model := m, vectorizer := vz, trace := t @ trace s1\<rparr>))"
  proof (cases r1)
    case (Inl x)
    with 1 lifted show ?thesis by (simp add: bind_prog_def)
  next
    case (Inr a)
    obtain r2 s2 where 2: "f a (s1\<lparr>trace := []\<rparr>) = (r2, s2)" by (cases "f a (s1\<lparr>trace := []\<rparr>)")
    from ignores_at [OF f 2, where m = m and vz = vz and t = "t @ trace s1"]
      ignores_here [OF f 2] Inr 1 lifted
    show ?thesis by (simp add: bind_prog_def)
  qed
qed

lemma ignores_try_fnf:
  assumes p: "ignores_artifacts p" and q: "ignores_artifacts q"
  shows "ignores_artifacts (try_except_FileNotFoundError p q)"
  unfolding ignores_artifacts_def
proof (intro allI)
  fix s m vz t
  obtain r1 s1 where 1: "p (s\<lparr>trace := []\<rparr>) = (r1, s1)" by (cases "p (s\<lparr>trace := []\<rparr>)")
  note lifted = ignores_at [OF p 1, where m = m and vz = vz and t = t]
  obtain r2 s2 where 2: "q (s1\<lparr>trace := []\<rparr>) = (r2, s2)" by (cases "q (s1\<lparr>trace := []\<rparr>)")
  from ignores_at [OF q 2, where m = m and vz = vz and t = "t @ trace s1"]
    ignores_here [OF q 2] 1 lifted
  show "try_except_FileNotFoundError p q (s\<lparr>model := m, vectorizer := vz, trace := t\<rparr>) =
          (case try_except_FileNotFoundError p q (s\<lparr>trace := []\<rparr>) of
             (r, s1) \<Rightarrow> (r, s1\<lparr>model := m, vectorizer := vz, trace := t @ trace s1\<rparr>))"
    by (cases r1) (simp_all add: try_except_FileNotFoundError_def)
qed

lemma ignores_case_df:
  assumes "ignores_artifacts p" and "\<And>d. ignores_artifacts (q d)"
  shows "ignores_artifacts (\<lambda>s. case df s of None \<Rightarrow> p s | Some d \<Rightarrow> q d s)"
  using assms by (auto simp: ignores_artifacts_def split: option.splits)

lemma ignores_if:
  assumes "ignores_artifacts p" and "ignores_artifacts q"
  shows "ignores_artifacts (\<lambda>s. if c then p s else q s)"
  using assms by (simp add: ignores_artifacts_def)

lemma ignores_load_data: "ignores_artifacts (load_data e)"
  unfolding load_data_def
  by (intro ignores_try_fnf ignores_bind ignores_lift ignores_return ignores_emit)

lemma ignores_dashboard: "ignores_artifacts dashboard"
  unfolding dashboard_def
  by (intro ignores_bind ignores_case_df ignores_if ignores_raise ignores_return ignores_emit)

lemma ignores_dataset_view: "ignores_artifacts (dataset_view e)"
  unfolding dataset_view_def Let_def
  by (intro ignores_bind ignores_case_df ignores_return ignores_emit)

lemma ignores_word_clouds: "ignores_artifacts (word_clouds e)"
  unfolding word_clouds_def
  by (intro ignores_try_fnf ignores_bind ignores_lift ignores_return ignores_emit)

lemma ignores_metrics: "ignores_artifacts (metrics labels total_data sentiments)"
proof (induction sentiments)
  case Nil
  show ?case by (simp add: ignores_return)
next
  case (Cons sentiment rest)
  show ?case
    unfolding metrics.simps
    apply (rule ignores_bind)
     apply (cases sentiment; simp add: Let_def ignores_lift ignores_emit)
    apply (rule Cons.IH)
    done
qed

lemma ignores_visualisasi: "ignores_artifacts (visualisasi e)"
  unfolding visualisasi_def
  by (intro ignores_bind ignores_case_df ignores_if ignores_return ignores_emit
        ignores_word_clouds ignores_metrics)

lemma ignores_view: "option e \<noteq> Prediksi_Manual \<Longrightarrow> ignores_artifacts (view e)"
  by (cases "option e")
     (simp_all add: view_def ignores_dashboard ignores_dataset_view ignores_visualisasi)

lemma ignores_after_load: "option e \<noteq> Prediksi_Manual \<Longrightarrow> ignores_artifacts (after_load e)"
  unfolding after_load_def
  by (intro ignores_bind ignores_load_data ignores_set_df ignores_emit ignores_view)

lemma load_data_artifacts:
  "load_data (e\<lparr>load_model_pkl := a, load_vectorizer_pkl := b\<rparr>) = load_data e"
proof -
  have "stemming_lambda (e\<lparr>load_model_pkl := a, load_vectorizer_pkl := b\<rparr>) = stemming_lambda e"
    by (rule ext) (simp add: stemming_lambda_def split: cell.splits)
  then show ?thesis by (simp add: load_data_def)
qed

lemma view_artifacts:
  "view (e\<lparr>load_model_pkl := a, load_vectorizer_pkl := b\<rparr>) = view e"
proof -
  have "word_clouds (e\<lparr>load_model_pkl := a, load_vectorizer_pkl := b\<rparr>) = word_clouds e"
    by (simp add: word_clouds_def)
  then show ?thesis
    by (cases "option e")
       (simp_all add: view_def dataset_view_def visualisasi_def prediksi_manual_def
          cong: option.case_cong if_cong)
qed

lemma after_load_artifacts:
  "after_load (e\<lparr>load_model_pkl := a, load_vectorizer_pkl := b\<rparr>) = after_load e"
  by (simp add: after_load_def load_data_artifacts view_artifacts)

lemma run_not_found_other_views:
  assumes "not_found e" and "option e \<noteq> Prediksi_Manual"
  shows "run e (init h) =
        (case run (e\<lparr>load_model_pkl := Inr m, load_vectorizer_pkl := Inr vz\<rparr>) (init h) of
           (r, s1) \<Rightarrow> (r, s1\<lparr>model := None, vectorizer := None,
                         trace := take 3 (trace s1) @ St_error Model_not_found # drop 3 (trace s1)\<rparr>))"
proof -
  let ?hdr = "[Set_page_config, Markdown ''<style>'', Markdown ''main-header'']"
  let ?i = "init h :: ('a, 'b) state"
  obtain r s1 where 1: "after_load e (?i\<lparr>trace := []\<rparr>) = (r, s1)"
    by (cases "after_load e (?i\<lparr>trace := []\<rparr>)")
  note ia = ignores_after_load [OF assms(2)]
  have a: "after_load e (?i\<lparr>model := None, vectorizer := None,
              trace := ?hdr @ [St_error Model_not_found]\<rparr>) =
           (r, s1\<lparr>model := None, vectorizer := None,
              trace := (?hdr @ [St_error Model_not_found]) @ trace s1\<rparr>)"
    by (rule ignores_at [OF ia 1])
  have b: "after_load e (?i\<lparr>model := Some m, vectorizer := Some vz, trace := ?hdr\<rparr>) =
           (r, s1\<lparr>model := Some m, vectorizer := Some vz, trace := ?hdr @ trace s1\<rparr>)"
    by (rule ignores_at [OF ia 1])
  have nf: "run e ?i = (r, s1\<lparr>model := None, vectorizer := None,
              trace := (?hdr @ [St_error Model_not_found]) @ trace s1\<rparr>)"
    using a load_models_not_found [OF assms(1)]
    by (simp add: run_after_load bind_prog_def emit_def set_globals_def init_def)
  have ld: "run (e\<lparr>load_model_pkl := Inr m, load_vectorizer_pkl := Inr vz\<rparr>) ?i =
              (r, s1\<lparr>model := Some m, vectorizer := Some vz, trace := ?hdr @ trace s1\<rparr>)"
    using b
    by (simp add: run_after_load after_load_artifacts load_models_def prog_defs
        set_globals_def init_def)
  show ?thesis by (simp add: nf ld)
qed


lemma load_data_appends:
  "load_data e s = (r, s1) \<Longrightarrow> \<exists>evs. s1 = s\<lparr>trace := trace s @ evs\<rparr>"
  by (auto simp: load_data_def prog_defs split: sum.splits if_splits
      intro: exI [of _ "[]"] exI [of _ "[St_error Dataset_not_found]"])

lemma run_not_found_prediksi:
  assumes "not_found e" and "option e = Prediksi_Manual"
  shows "run e (init h) =
        (case load_data e ((init h)\<lparr>trace :=
                 [Set_page_config, Markdown ''<style>'', Markdown ''main-header'',
                  St_error Model_not_found]\<rparr>) of
           (Inl x, s1) \<Rightarrow> (Inl x, s1)
         | (Inr d, s1) \<Rightarrow>
             (Inr (), s1\<lparr>df := d,
                trace := trace s1 @
                  [Markdown ''Navigation'', Radio_menu, Markdown ''## Prediksi Sentimen Manual'',
                   Markdown ''---'', Markdown ''footer'']\<rparr>))"
proof -
  let ?s0 = "(init h :: ('a, 'b) state)\<lparr>trace :=
                 [Set_page_config, Markdown ''<style>'', Markdown ''main-header'',
                  St_error Model_not_found]\<rparr>"
  obtain r s1 where ld: "load_data e ?s0 = (r, s1)" by (cases "load_data e ?s0")
  from load_data_appends [OF ld] obtain evs where s1: "s1 = ?s0\<lparr>trace := trace ?s0 @ evs\<rparr>"
    by blast
  have pre: "run e (init h) = after_load e ?s0"
    using load_models_not_found [OF assms(1)]
    by (simp add: run_after_load bind_prog_def emit_def set_globals_def init_def)
  show ?thesis
  proof (cases r)
    case (Inl x)
    with ld show ?thesis unfolding pre by (simp add: after_load_def bind_prog_def)
  next
    case (Inr d)
    with ld s1 assms(2) show ?thesis
      unfolding pre
      by (simp add: after_load_def view_def prediksi_manual_def prog_defs set_df_def init_def)
  qed
qed

lemma load_models_propagates:
  "load_model_pkl e = Inl x \<and> x \<noteq> FileNotFoundError \<or>
   load_model_pkl e = Inr m \<and> load_vectorizer_pkl e = Inl x \<and> x \<noteq> FileNotFoundError \<Longrightarrow>
   load_models e s = (Inl x, s)"
  by (auto simp: load_models_def prog_defs)

text \<open>
  C5, amended. When an artifact file is not found (\<open>FileNotFoundError\<close> from either
  \<open>joblib.load\<close>), \<open>load_models\<close> reports it and returns \<open>(None, None)\<close> without
  raising. After that, a run with any view other than Prediksi Manual ends as the run
  with both artifacts loaded ends and renders what that run renders, with the notice
  added after the header; a run with Prediksi Manual renders that view's heading alone.
  Any other exception raised by either \<open>joblib.load\<close> is not caught: it leaves
  \<open>load_models\<close> and the script, and nothing is reported.
\<close>

theorem artifacts_not_found_degrades:
  "(not_found e \<longrightarrow>
      load_models e s =
        (Inr (None, None), s\<lparr>trace := trace s @ [St_error Model_not_found]\<rparr>)) \<and>
   (not_found e \<and> option e \<noteq> Prediksi_Manual \<longrightarrow>
      run e (init h) =
        (case run (e\<lparr>load_model_pkl := Inr m, load_vectorizer_pkl := Inr vz\<rparr>) (init h) of
           (r, s1) \<Rightarrow>
             (r, s1\<lparr>model := None, vectorizer := None,
                    trace := take 3 (trace s1) @ St_error Model_not_found # drop 3 (trace s1)\<rparr>))) \<and>
   (not_found e \<and> option e = Prediksi_Manual \<longrightarrow>
      run e (init h) =
        (case load_data e ((init h)\<lparr>trace :=
                 [Set_page_config, Markdown ''<style>'', Markdown ''main-header'',
                  St_error Model_not_found]\<rparr>) of
           (Inl y, s1) \<Rightarrow> (Inl y, s1)
         | (Inr d, s1) \<Rightarrow>
             (Inr (), s1\<lparr>df := d,
                trace := trace s1 @
                  [Markdown ''Navigation'', Radio_menu, Markdown ''## Prediksi Sentimen Manual'',
                   Markdown ''---'', Markdown ''footer'']\<rparr>))) \<and>
   (load_model_pkl e = Inl x \<and> x \<noteq> FileNotFoundError \<or>
    load_model_pkl e = Inr m' \<and> load_vectorizer_pkl e = Inl x \<and> x \<noteq> FileNotFoundError \<longrightarrow>
      load_models e s = (Inl x, s) \<and>
      run e (init h) =
        (Inl x, (init h)\<lparr>trace :=
                  [Set_page_config, Markdown ''<style>'', Markdown ''main-header'']\<rparr>))"
proof (intro conjI impI)
  assume "not_found e"
  then show "load_models e s =
        (Inr (None, None), s\<lparr>trace := trace s @ [St_error Model_not_found]\<rparr>)"
    by (rule load_models_not_found)
next
  assume "not_found e \<and> option e \<noteq> Prediksi_Manual"
  then show "run e (init h) =
        (case run (e\<lparr>load_model_pkl := Inr m, load_vectorizer_pkl := Inr vz\<rparr>) (init h) of
           (r, s1) \<Rightarrow>
             (r, s1\<lparr>model := None, vectorizer := None,
                    trace := take 3 (trace s1) @ St_error Model_not_found # drop 3 (trace s1)\<rparr>))"
    by (intro run_not_found_other_views) simp_all
next
  assume "not_found e \<and> option e = Prediksi_Manual"
  then show "run e (init h) =
        (case load_data e ((init h)\<lparr>trace :=
                 [Set_page_config, Markdown ''<style>'', Markdown ''main-header'',
                  St_error Model_not_found]\<rparr>) of
           (Inl y, s1) \<Rightarrow> (Inl y, s1)
         | (Inr d, s1) \<Rightarrow>
             (Inr (), s1\<lparr>df := d,
                trace := trace s1 @
                  [Markdown ''Navigation'', Radio_menu, Markdown ''## Prediksi Sentimen Manual'',
                   Markdown ''---'', Markdown ''footer'']\<rparr>))"
    by (intro run_not_found_prediksi) simp_all
next
  assume a: "load_model_pkl e = Inl x \<and> x \<noteq> FileNotFoundError \<or>
    load_model_pkl e = Inr m' \<and> load_vectorizer_pkl e = Inl x \<and> x \<noteq> FileNotFoundError"
  then show "load_models e s = (Inl x, s)" by (rule load_models_propagates)
  from a have "\<And>s'. load_models e s' = (Inl x, s')" by (rule load_models_propagates)
  then show "run e (init h) =
        (Inl x, (init h)\<lparr>trace :=
                  [Set_page_config, Markdown ''<style>'', Markdown ''main-header'']\<rparr>)"
    by (simp add: run_def bind_prog_def emit_def init_def)
qed

lemma run_example_dataset:
  "run (example_env\<lparr>option := Dataset\<rparr>) (init ()) =
     (Inr (), \<lparr>heap = (), model = Some example_model, vectorizer = Some example_vectorizer,
        df = Some example_df_loaded,
        trace = [Set_page_config, Markdown ''<style>'', Markdown ''main-header'',
          Markdown ''Navigation'', Radio_menu,
          Markdown ''## Dataset Mobile JKN'', Markdown ''### Informasi Dataset'',
          St_info_dataset 3 3, Markdown ''### Filter Data'',
          Selectbox [10, 20, 50, 100, 3], Markdown ''### Data Preview'',
          St_dataframe example_df_loaded,
          Download_button example_df_loaded, Markdown ''---'', Markdown ''footer'']\<rparr>)"
proof -
  have ld: "load_data (example_env\<lparr>option := Dataset\<rparr>) s = (Inr (Some example_df_loaded), s)"
    for s :: "(unit, nat) state"
    by (rule load_data_example) (simp_all add: example_env_def)
  have d: "nrows example_df_loaded = 3" "length example_df_loaded = 3"
    "head 10 example_df_loaded = example_df_loaded"
    by (simp_all add: nrows_def head_def example_df_loaded_def)
  have c: "show_rows_choice example_env = 0" by (simp add: example_env_def)
  show ?thesis
    by (simp add: run_def view_def dataset_view_def load_models_def ld d c prog_defs
        set_globals_def set_df_def selectbox_def init_def example_env_simps)
qed

lemma run_example_dashboard:
  "run (example_env\<lparr>option := Dashboard\<rparr>) (init ()) =
     (Inr (), \<lparr>heap = (), model = Some example_model, vectorizer = Some example_vectorizer,
        df = Some example_df_loaded,
        trace = [Set_page_config, Markdown ''<style>'', Markdown ''main-header'',
          Markdown ''Navigation'', Radio_menu,
          Markdown ''### Distribusi Sentimen Cepat'',
          Plotly_chart (Pie [CStr ''positif'', CStr ''negatif'', CStr ''positif'']),
          Markdown ''---'', Markdown ''footer'']\<rparr>)"
proof -
  have ld: "load_data (example_env\<lparr>option := Dashboard\<rparr>) s = (Inr (Some example_df_loaded), s)"
    for s :: "(unit, nat) state"
    by (rule load_data_example) (simp_all add: example_env_def)
  have d: "has_column example_df_loaded ''label''"
    "label_column example_df_loaded = [CStr ''positif'', CStr ''negatif'', CStr ''positif'']"
    by (simp_all add: has_column_def label_column_def example_df_loaded_def)
  show ?thesis
    by (simp add: run_def view_def dashboard_def load_models_def ld d prog_defs
        set_globals_def set_df_def init_def example_env_simps)
qed

theorem artifacts_not_found_degrades_witness:
  "load_models (example_env\<lparr>load_vectorizer_pkl := Inl FileNotFoundError\<rparr>) (init ()) =
     (Inr (None, None), (init ())\<lparr>trace := [St_error Model_not_found]\<rparr>) \<and>
   run (example_env\<lparr>load_vectorizer_pkl := Inl FileNotFoundError, option := Dataset\<rparr>) (init ()) =
     (Inr (), \<lparr>heap = (), model = None, vectorizer = None, df = Some example_df_loaded,
        trace = [Set_page_config, Markdown ''<style>'', Markdown ''main-header'',
          St_error Model_not_found, Markdown ''Navigation'', Radio_menu,
          Markdown ''## Dataset Mobile JKN'', Markdown ''### Informasi Dataset'',
          St_info_dataset 3 3, Markdown ''### Filter Data'',
          Selectbox [10, 20, 50, 100, 3], Markdown ''### Data Preview'',
          St_dataframe example_df_loaded,
          Download_button example_df_loaded, Markdown ''---'', Markdown ''footer'']\<rparr>) \<and>
   run (example_env\<lparr>load_model_pkl := Inl FileNotFoundError, option := Dashboard\<rparr>) (init ()) =
     (Inr (), \<lparr>heap = (), model = None, vectorizer = None, df = Some example_df_loaded,
        trace = [Set_page_config, Markdown ''<style>'', Markdown ''main-header'',
          St_error Model_not_found, Markdown ''Navigation'', Radio_menu,
          Markdown ''### Distribusi Sentimen Cepat'',
          Plotly_chart (Pie [CStr ''positif'', CStr ''negatif'', CStr ''positif'']),
          Markdown ''---'', Markdown ''footer'']\<rparr>) \<and>
   run (example_env\<lparr>load_model_pkl := Inl FileNotFoundError\<rparr>) (init ()) =
     (Inr (), \<lparr>heap = (), model = None, vectorizer = None, df = Some example_df_loaded,
        trace = [Set_page_config, Markdown ''<style>'', Markdown ''main-header'',
          St_error Model_not_found, Markdown ''Navigation'', Radio_menu,
          Markdown ''## Prediksi Sentimen Manual'',
          Markdown ''---'', Markdown ''footer'']\<rparr>) \<and>
   run (example_env\<lparr>load_vectorizer_pkl := Inl (OtherError ''EOFError'')\<rparr>) (init ()) =
     (Inl (OtherError ''EOFError''),
      \<lparr>heap = (), model = None, vectorizer = None, df = None,
       trace = [Set_page_config, Markdown ''<style>'', Markdown ''main-header'']\<rparr>)"
proof -
  let ?e1 = "example_env\<lparr>load_vectorizer_pkl := Inl FileNotFoundError\<rparr>"
  let ?e2 = "example_env\<lparr>load_vectorizer_pkl := Inl FileNotFoundError, option := Dataset\<rparr>"
  let ?e3 = "example_env\<lparr>load_model_pkl := Inl FileNotFoundError, option := Dashboard\<rparr>"
  let ?e4 = "example_env\<lparr>load_model_pkl := Inl FileNotFoundError\<rparr>"
  let ?e5 = "example_env\<lparr>load_vectorizer_pkl := Inl (OtherError ''EOFError'')\<rparr>"
  have nf: "not_found ?e1" "not_found ?e2" "not_found ?e3" "not_found ?e4"
    by (simp_all add: not_found_def example_env_def)
  have opt: "option ?e2 = Dataset" "option ?e3 = Dashboard" "option ?e4 = Prediksi_Manual"
    by (simp_all add: example_env_def)
  have restored:
    "?e2\<lparr>load_model_pkl := Inr example_model, load_vectorizer_pkl := Inr example_vectorizer\<rparr> =
       example_env\<lparr>option := Dataset\<rparr>"
    "?e3\<lparr>load_model_pkl := Inr example_model, load_vectorizer_pkl := Inr example_vectorizer\<rparr> =
       example_env\<lparr>option := Dashboard\<rparr>"
    "example_env\<lparr>option := Dashboard, load_model_pkl := Inr example_model,
        load_vectorizer_pkl := Inr example_vectorizer\<rparr> = example_env\<lparr>option := Dashboard\<rparr>"
    "example_env\<lparr>option := Dataset, load_model_pkl := Inr example_model,
        load_vectorizer_pkl := Inr example_vectorizer\<rparr> = example_env\<lparr>option := Dataset\<rparr>"
    by (simp_all add: example_env_def)
  have ld: "load_data ?e4 s = (Inr (Some example_df_loaded), s)" for s :: "(unit, nat) state"
    by (rule load_data_example) (simp_all add: example_env_def)
  have bad: "load_model_pkl ?e5 = Inr example_model"
    "load_vectorizer_pkl ?e5 = Inl (OtherError ''EOFError'')"
    by (simp_all add: example_env_def)
  note t = artifacts_not_found_degrades
  have c1: "load_models ?e1 (init ()) =
              (Inr (None, None), (init ())\<lparr>trace := [St_error Model_not_found]\<rparr>)"
    using t [where e = ?e1 and s = "init ()", THEN conjunct1] nf(1)
    by (simp add: init_def)
  have "run ?e2 (init ()) =
          (case run (example_env\<lparr>option := Dataset\<rparr>) (init ()) of
             (r, s1) \<Rightarrow>
               (r, s1\<lparr>model := None, vectorizer := None,
                      trace := take 3 (trace s1) @ St_error Model_not_found # drop 3 (trace s1)\<rparr>))"
    using t [where e = ?e2 and h = "()" and m = example_model and vz = example_vectorizer,
        THEN conjunct2, THEN conjunct1] nf(2) opt(1)
    by (simp add: restored)
  then have c2: "run ?e2 (init ()) =
     (Inr (), \<lparr>heap = (), model = None, vectorizer = None, df = Some example_df_loaded,
        trace = [Set_page_config, Markdown ''<style>'', Markdown ''main-header'',
          St_error Model_not_found, Markdown ''Navigation'', Radio_menu,
          Markdown ''## Dataset Mobile JKN'', Markdown ''### Informasi Dataset'',
          St_info_dataset 3 3, Markdown ''### Filter Data'',
          Selectbox [10, 20, 50, 100, 3], Markdown ''### Data Preview'',
          St_dataframe example_df_loaded,
          Download_button example_df_loaded, Markdown ''---'', Markdown ''footer'']\<rparr>)"
    by (simp add: run_example_dataset)
  have "run ?e3 (init ()) =
          (case run (example_env\<lparr>option := Dashboard\<rparr>) (init ()) of
             (r, s1) \<Rightarrow>
               (r, s1\<lparr>model := None, vectorizer := None,
                      trace := take 3 (trace s1) @ St_error Model_not_found # drop 3 (trace s1)\<rparr>))"
    using t [where e = ?e3 and h = "()" and m = example_model and vz = example_vectorizer,
        THEN conjunct2, THEN conjunct1] nf(3) opt(2)
    by (simp add: restored)
  then have c3: "run ?e3 (init ()) =
     (Inr (), \<lparr>heap = (), model = None, vectorizer = None, df = Some example_df_loaded,
        trace = [Set_page_config, Markdown ''<style>'', Markdown ''main-header'',
          St_error Model_not_found, Markdown ''Navigation'', Radio_menu,
          Markdown ''### Distribusi Sentimen Cepat'',
          Plotly_chart (Pie [CStr ''positif'', CStr ''negatif'', CStr ''positif'']),
          Markdown ''---'', Markdown ''footer'']\<rparr>)"
    by (simp add: run_example_dashboard)
  have c4: "run ?e4 (init ()) =
     (Inr (), \<lparr>heap = (), model = None, vectorizer = None, df = Some example_df_loaded,
        trace = [Set_page_config, Markdown ''<style>'', Markdown ''main-header'',
          St_error Model_not_found, Markdown ''Navigation'', Radio_menu,
          Markdown ''## Prediksi Sentimen Manual'',
          Markdown ''---'', Markdown ''footer'']\<rparr>)"
    using t [where e = ?e4 and h = "()", THEN conjunct2, THEN conjunct2, THEN conjunct1]
      nf(4) opt(3)
    by (simp add: ld init_def)
  have c5: "run ?e5 (init ()) =
     (Inl (OtherError ''EOFError''),
      \<lparr>heap = (), model = None, vectorizer = None, df = None,
       trace = [Set_page_config, Markdown ''<style>'', Markdown ''main-header'']\<rparr>)"
    using t [where e = ?e5 and h = "()" and x = "OtherError ''EOFError''" and m' = example_model,
        THEN conjunct2, THEN conjunct2, THEN conjunct2] bad
    by (simp add: init_def)
  from c1 c2 c3 c4 c5 show ?thesis by blast
qed

subsection \<open>Loading the dataset\<close>

text \<open>
  C7, the claim as stated fails: a parse error of \<open>pd.read_csv\<close> and a \<open>stemming\<close>
  cell that \<open>ast.literal_eval\<close> rejects both leave \<open>load_data\<close> as exceptions, with
  nothing reported.
\<close>

theorem dataset_unparsable_counterexample:
  "load_data (example_env\<lparr>read_csv := Inl (OtherError ''ParserError'')\<rparr>) (init ()) =
     (Inl (OtherError ''ParserError''), init ()) \<and>
   load_data (example_env\<lparr>read_csv :=
       Inr [(''stemming'', [CStr ''rusak ['']), (''label'', [CStr ''positif''])]\<rparr>) (init ()) =
     (Inl SyntaxError, init ())"
  by (simp add: load_data_def prog_defs example_env_def getitem_def stemming_lambda_def
      example_literal_eval_def)

text \<open>
  C7, amended. \<open>load_data\<close> catches \<open>FileNotFoundError\<close>, reports it and returns
  \<open>None\<close>. Every other exception leaves it uncaught: one raised by \<open>pd.read_csv\<close>, the
  \<open>KeyError\<close> of a missing \<open>stemming\<close> column, and one raised while a \<open>stemming\<close>
  cell is deserialized.
\<close>

theorem load_data_catches_file_not_found_only:
  "(read_csv e = Inl FileNotFoundError \<longrightarrow>
      load_data e s = (Inr None, s\<lparr>trace := trace s @ [St_error Dataset_not_found]\<rparr>)) \<and>
   (read_csv e = Inl x \<and> x \<noteq> FileNotFoundError \<longrightarrow> load_data e s = (Inl x, s)) \<and>
   (read_csv e = Inr d \<and> map_of d ''stemming'' = None \<longrightarrow> load_data e s = (Inl KeyError, s)) \<and>
   (read_csv e = Inr d \<and> map_of d ''stemming'' = Some col \<and>
    apply_series (stemming_lambda e) col = Inl y \<and> y \<noteq> FileNotFoundError \<longrightarrow>
      load_data e s = (Inl y, s))"
  by (simp add: load_data_def prog_defs getitem_def)

theorem load_data_catches_file_not_found_only_witness:
  "load_data (example_env\<lparr>read_csv := Inl FileNotFoundError\<rparr>) (init ()) =
     (Inr None, (init ())\<lparr>trace := [St_error Dataset_not_found]\<rparr>) \<and>
   load_data (example_env\<lparr>read_csv := Inl (OtherError ''EmptyDataError'')\<rparr>) (init ()) =
     (Inl (OtherError ''EmptyDataError''), init ()) \<and>
   load_data (example_env\<lparr>read_csv := Inr [(''label'', [CStr ''positif''])]\<rparr>) (init ()) =
     (Inl KeyError, init ()) \<and>
   load_data (example_env\<lparr>read_csv := Inr [(''stemming'', [CStr ''12''])],
                          literal_eval := (\<lambda>x. Inr (PInt 12))\<rparr>) (init ()) =
     (Inl TypeError, init ())"
  using load_data_catches_file_not_found_only
      [where e = "example_env\<lparr>read_csv := Inl FileNotFoundError\<rparr>" and s = "init ()"]
    load_data_catches_file_not_found_only
      [where e = "example_env\<lparr>read_csv := Inl (OtherError ''EmptyDataError'')\<rparr>"
         and x = "OtherError ''EmptyDataError''" and s = "init ()"]
    load_data_catches_file_not_found_only
      [where e = "example_env\<lparr>read_csv := Inr [(''label'', [CStr ''positif''])]\<rparr>"
         and d = "[(''label'', [CStr ''positif''])]" and s = "init ()"]
    load_data_catches_file_not_found_only
      [where e = "example_env\<lparr>read_csv := Inr [(''stemming'', [CStr ''12''])],
                          literal_eval := (\<lambda>x. Inr (PInt 12))\<rparr>"
         and d = "[(''stemming'', [CStr ''12''])]" and s = "init ()" and col = "[CStr ''12'']"
         and y = TypeError]
  by (simp add: init_def stemming_lambda_def str_join_def)

lemma join_strs_tokens: "join_strs '' '' (map PStr ts) = Inr (space_joined ts)"
  by (induction ts rule: space_joined.induct) simp_all

lemma stemming_lambda_tokens:
  assumes "\<forall>x. c = CStr x \<longrightarrow> literal_eval e x = Inr (PList (map PStr (tokens x)))"
  shows "stemming_lambda e c = Inr (detokenized tokens c)"
  using assms
  by (cases c) (simp_all add: stemming_lambda_def detokenized_def str_join_def join_strs_tokens)

lemma apply_series_tokens:
  assumes "\<forall>x. CStr x \<in> set col \<longrightarrow> literal_eval e x = Inr (PList (map PStr (tokens x)))"
  shows "apply_series (stemming_lambda e) col = Inr (map (detokenized tokens) col)"
  using assms
proof (induction col)
  case Nil
  show ?case by simp
next
  case (Cons c col)
  then have "stemming_lambda e c = Inr (detokenized tokens c)"
    by (intro stemming_lambda_tokens) simp
  with Cons show ?case by simp
qed

lemma setitem_columns: "map_of d name = Some col \<Longrightarrow> map fst (setitem d name col') = map fst d"
  by (auto simp: setitem_def dest: map_of_SomeD intro: rev_image_eqI)

lemma map_of_setitem_same: "map_of d name = Some col \<Longrightarrow> map_of (setitem d name col') name = Some col'"
proof -
  assume a: "map_of d name = Some col"
  then have in_d: "name \<in> fst ` set d" by (auto dest: map_of_SomeD intro: rev_image_eqI)
  have "map_of d name \<noteq> None \<Longrightarrow>
        map_of (map (\<lambda>(c, xs). if c = name then (c, col') else (c, xs)) d) name = Some col'"
    by (induction d) (auto split: if_splits)
  with a in_d show ?thesis by (simp add: setitem_def)
qed

lemma map_of_setitem_other:
  "map_of d name = Some col \<Longrightarrow> other \<noteq> name \<Longrightarrow>
   map_of (setitem d name col') other = map_of d other"
proof -
  assume a: "map_of d name = Some col" and o: "other \<noteq> name"
  then have in_d: "name \<in> fst ` set d" by (auto dest: map_of_SomeD intro: rev_image_eqI)
  have "map_of (map (\<lambda>(c, xs). if c = name then (c, col') else (c, xs)) d) other = map_of d other"
    using o by (induction d) auto
  with in_d show ?thesis by (simp add: setitem_def)
qed

text \<open>
  C8. When every string cell of the \<open>stemming\<close> column is the serialization of a list
  of token strings, \<open>load_data\<close> returns the data frame with the same columns in the
  same order, in which each string cell of \<open>stemming\<close> is the space-joined
  concatenation of its tokens, every other cell of that column is as it was, and every
  other column is unchanged.
\<close>

theorem stemming_cells_deserialized:
  assumes "read_csv e = Inr d" and "map_of d ''stemming'' = Some col"
    and "\<forall>x. CStr x \<in> set col \<longrightarrow> literal_eval e x = Inr (PList (map PStr (tokens x)))"
  shows "\<exists>d'. load_data e s = (Inr (Some d'), s) \<and>
              map fst d' = map fst d \<and>
              map_of d' ''stemming'' = Some (map (detokenized tokens) col) \<and>
              (\<forall>name. name \<noteq> ''stemming'' \<longrightarrow> map_of d' name = map_of d name)"
proof -
  from assms(3) have "apply_series (stemming_lambda e) col = Inr (map (detokenized tokens) col)"
    by (rule apply_series_tokens)
  with assms(1,2)
  have "load_data e s = (Inr (Some (setitem d ''stemming'' (map (detokenized tokens) col))), s)"
    by (simp add: load_data_def prog_defs getitem_def)
  with assms(2) show ?thesis
    by (simp add: setitem_columns map_of_setitem_same map_of_setitem_other)
qed

theorem stemming_cells_deserialized_witness:
  "\<exists>d'. load_data example_env (init ()) = (Inr (Some d'), init ()) \<and>
         map fst d' = [''content'', ''stemming'', ''label''] \<and>
         map_of d' ''stemming'' = Some [CStr ''bagus sekali'', CStr ''lambat'', CNaN] \<and>
         map_of d' ''label'' = Some [CStr ''positif'', CStr ''negatif'', CStr ''positif'']"
proof -
  let ?tokens = "\<lambda>x. if x = ''['bagus', 'sekali']'' then [''bagus'', ''sekali''] else [''lambat'']"
  have 1: "read_csv example_env = Inr example_df" by (simp add: example_env_def)
  have 2: "map_of example_df ''stemming'' =
             Some [CStr ''['bagus', 'sekali']'', CStr ''['lambat']'', CNaN]"
    by (simp add: example_df_def)
  have 3: "\<forall>x. CStr x \<in> set [CStr ''['bagus', 'sekali']'', CStr ''['lambat']'', CNaN] \<longrightarrow>
             literal_eval example_env x = Inr (PList (map PStr (?tokens x)))"
    by (simp add: example_env_def example_literal_eval_def)
  from stemming_cells_deserialized [OF 1 2 3, of "init ()"]
  obtain d' where d': "load_data example_env (init ()) = (Inr (Some d'), init ())"
    "map fst d' = map fst example_df"
    "map_of d' ''stemming'' =
       Some (map (detokenized ?tokens) [CStr ''['bagus', 'sekali']'', CStr ''['lambat']'', CNaN])"
    "\<forall>name. name \<noteq> ''stemming'' \<longrightarrow> map_of d' name = map_of example_df name"
    by blast
  from d'(4) have "map_of d' ''label'' = map_of example_df ''label''" by simp
  with d'(1-3) show ?thesis
    by (intro exI [of _ d']) (simp add: example_df_def detokenized_def)
qed

subsection \<open>Classification twice\<close>

lemma read_only_simps:
  assumes "read_only m vz"
  shows "transform vz texts h = (r, h') \<Longrightarrow> h' = h"
    and "predict m x h = (r1, h1) \<Longrightarrow> h1 = h"
    and "decision_function m x h = (r2, h2) \<Longrightarrow> h2 = h"
  using assms by (auto simp: read_only_def dest: arg_cong[where f=snd])

lemma prediksi_read_only:
  assumes "read_only m vz" and "prediksi m vz text s = (r, s')"
  shows "\<exists>evs. s' = s\<lparr>trace := trace s @ evs\<rparr> \<and>
               (\<forall>t. prediksi m vz text (s\<lparr>trace := t\<rparr>) = (r, s\<lparr>trace := t @ evs\<rparr>))"
  using assms(2) read_only_simps[OF assms(1)]
  by (fastforce simp: prediksi_def prog_defs call_transform_def call_predict_def
      call_decision_function_def index0_def
      split: prod.splits sum.splits list.splits)


lemma prediksi_manual_read_only:
  assumes "read_only m vz" and "model s = Some m" and "vectorizer s = Some vz"
    and "prediksi_manual e s = (r, s')"
  shows "\<exists>evs. s' = s\<lparr>trace := trace s @ evs\<rparr> \<and>
               (\<forall>t. prediksi_manual e (s\<lparr>trace := t\<rparr>) = (r, s\<lparr>trace := t @ evs\<rparr>))"
proof (cases "button e \<and> strip (user_input e) \<noteq> []")
  case False
  with assms(2-4) show ?thesis
    by (auto simp: prediksi_manual_def prog_defs)
next
  case True
  let ?form = "[Markdown ''## Prediksi Sentimen Manual'', Markdown ''### Masukkan Ulasan Anda'',
                Text_area, Markdown ''### Tips'', St_info ''Tips'', Button]"
  let ?s1 = "s\<lparr>trace := trace s @ ?form\<rparr>"
  obtain r1 s1' where p: "prediksi m vz (user_input e) ?s1 = (r1, s1')"
    by (cases "prediksi m vz (user_input e) ?s1")
  from prediksi_read_only [OF assms(1) p] obtain evs where
    s1': "s1' = ?s1\<lparr>trace := trace ?s1 @ evs\<rparr>" and
    again: "\<And>t. prediksi m vz (user_input e) (?s1\<lparr>trace := t\<rparr>) = (r1, ?s1\<lparr>trace := t @ evs\<rparr>)"
    by blast
  have again': "prediksi m vz (user_input e) (s\<lparr>trace := t\<rparr>) = (r1, s\<lparr>trace := t @ evs\<rparr>)" for t
    using again [of t] by simp
  show ?thesis
  proof (cases r1)
    case (Inl x)
    with True assms(2-4) again' [of "trace s @ ?form"] again' show ?thesis
      by (auto simp: prediksi_manual_def prog_defs
          intro!: exI [of _ "?form @ evs @ [St_error (Prediction_failed x)]"])
  next
    case (Inr u)
    with True assms(2-4) again' [of "trace s @ ?form"] again' show ?thesis
      by (auto simp: prediksi_manual_def prog_defs intro!: exI [of _ "?form @ evs"])
  qed
qed

text \<open>
  C9. With a loaded pair of artifacts whose methods do not change the objects' state, a
  classification leaves the heap, the two artifact variables and the dataset as they
  were, and the same classification run again from the state it left returns the same
  result and renders the same events, the label and the confidence among them.
\<close>

theorem classification_repeatable:
  assumes "read_only m vz" and "model s = Some m" and "vectorizer s = Some vz"
    and "prediksi_manual e s = (r, s')"
  shows "heap s' = heap s \<and> model s' = model s \<and> vectorizer s' = vectorizer s \<and> df s' = df s \<and>
         (\<exists>evs. trace s' = trace s @ evs \<and>
                prediksi_manual e s' = (r, s'\<lparr>trace := trace s' @ evs\<rparr>))"
proof -
  from prediksi_manual_read_only [OF assms] obtain evs where
    s': "s' = s\<lparr>trace := trace s @ evs\<rparr>" and
    again: "\<And>t. prediksi_manual e (s\<lparr>trace := t\<rparr>) = (r, s\<lparr>trace := t @ evs\<rparr>)"
    by blast
  from again [of "trace s @ evs"] s' have "prediksi_manual e s' = (r, s'\<lparr>trace := trace s' @ evs\<rparr>)"
    by simp
  with s' show ?thesis by auto
qed

lemma read_only_example: "read_only example_model example_vectorizer"
  by (simp add: read_only_def example_model_def example_vectorizer_def)

theorem classification_repeatable_witness:
  "read_only example_model example_vectorizer \<and>
   prediksi_manual example_env
     (example_state\<lparr>trace :=
         [Markdown ''## Prediksi Sentimen Manual'',
          Markdown ''### Masukkan Ulasan Anda'', Text_area,
          Markdown ''### Tips'', St_info ''Tips'', Button,
          Call_transform [''Aplikasi ini sangat membantu''], Call_predict,
          Call_decision_function,
          Prediction_box Smiling_face ''#4CAF50'' (PStr ''Positif'') (3 / 2)]\<rparr>) =
     (Inr (), example_state\<lparr>trace :=
         [Markdown ''## Prediksi Sentimen Manual'',
          Markdown ''### Masukkan Ulasan Anda'', Text_area,
          Markdown ''### Tips'', St_info ''Tips'', Button,
          Call_transform [''Aplikasi ini sangat membantu''], Call_predict,
          Call_decision_function,
          Prediction_box Smiling_face ''#4CAF50'' (PStr ''Positif'') (3 / 2),
          Markdown ''## Prediksi Sentimen Manual'',
          Markdown ''### Masukkan Ulasan Anda'', Text_area,
          Markdown ''### Tips'', St_info ''Tips'', Button,
          Call_transform [''Aplikasi ini sangat membantu''], Call_predict,
          Call_decision_function,
          Prediction_box Smiling_face ''#4CAF50'' (PStr ''Positif'') (3 / 2)]\<rparr>)"
  using classification_repeatable [OF read_only_example example_state_simps(1,2)
      prediksi_manual_example [OF example_state_simps(1,2)]]
  by (simp add: read_only_example example_state_simps)

end
